theory Spec2Isabelle
  imports Complex_Main "HOL-Library.Word"
begin

section \<open>Strings and buffers\<close>

text \<open>
  A JavaScript string is the list of its UTF-16 code units (a \<open>jstring\<close>), a Node \<open>Buffer\<close>
  the list of its bytes (a \<open>buffer\<close>, one \<open>char\<close> per byte). \<open>js\<close> gives the JavaScript
  string of a literal of the source. The names of the cookie slots and the constant cookie
  attributes, which only ever are literals of the source, stay Isabelle strings.
  \<open>CryptoOptions.inputEncoding\<close> and \<open>outputEncoding\<close> are kept at the defaults
  (\<open>utf8\<close>, \<open>base64url\<close>): the repository constructs its only \<open>CryptoSuite\<close> with them.
\<close>

type_synonym jstring = "16 word list"

type_synonym buffer = "char list"

definition js :: "string \<Rightarrow> jstring" where
  "js s = map of_char s"

section \<open>The text encoding utf8\<close>

text \<open>
  \<open>Buffer.from(s, "utf8")\<close> reads the string by code points: a high surrogate followed by a
  low one is one code point, and a surrogate that is not part of such a pair is replaced by
  U+FFFD. Each code point is written as one to four bytes.
\<close>

definition is_high_surrogate :: "16 word \<Rightarrow> bool" where
  "is_high_surrogate u = (0xD800 \<le> unat u \<and> unat u \<le> 0xDBFF)"

definition is_low_surrogate :: "16 word \<Rightarrow> bool" where
  "is_low_surrogate u = (0xDC00 \<le> unat u \<and> unat u \<le> 0xDFFF)"

definition code_point_of_unit :: "16 word \<Rightarrow> nat" where
  "code_point_of_unit u = (if is_high_surrogate u \<or> is_low_surrogate u then 0xFFFD else unat u)"

fun code_points :: "jstring \<Rightarrow> nat list" where
  "code_points [] = []"
| "code_points [u] = [code_point_of_unit u]"
| "code_points (u # v # rest) =
     (if is_high_surrogate u \<and> is_low_surrogate v
      then (0x10000 + (unat u - 0xD800) * 0x400 + (unat v - 0xDC00)) # code_points rest
      else code_point_of_unit u # code_points (v # rest))"

definition utf8_of_code_point :: "nat \<Rightarrow> nat list" where
  "utf8_of_code_point cp =
     (if cp < 0x80 then [cp]
      else if cp < 0x800 then [0xC0 + cp div 0x40, 0x80 + cp mod 0x40]
      else if cp < 0x10000 then
        [0xE0 + cp div 0x1000, 0x80 + cp div 0x40 mod 0x40, 0x80 + cp mod 0x40]
      else
        [0xF0 + cp div 0x40000, 0x80 + cp div 0x1000 mod 0x40, 0x80 + cp div 0x40 mod 0x40,
         0x80 + cp mod 0x40])"

definition Buffer_from_utf8 :: "jstring \<Rightarrow> buffer" where
  "Buffer_from_utf8 s = map char_of (concat (map utf8_of_code_point (code_points s)))"

text \<open>
  \<open>buf.toString("utf8")\<close> never throws: a byte that cannot start a sequence, and a sequence
  that is cut short, by another byte or by the end, give U+FFFD, and decoding goes on with
  the byte that cut the sequence short. Overlong forms, surrogates and values above U+10FFFF
  are shut out by the bounds on the byte after the first.
\<close>

definition in_range :: "nat \<Rightarrow> nat \<Rightarrow> nat \<Rightarrow> bool" where
  "in_range lo hi b = (lo \<le> b \<and> b \<le> hi)"

fun utf8_decode :: "nat list \<Rightarrow> nat list" where
  "utf8_decode [] = []"
| "utf8_decode (b # bs) =
     (if b < 0x80 then b # utf8_decode bs
      else if in_range 0xC2 0xDF b then
        (case bs of
           [] \<Rightarrow> [0xFFFD]
         | c # bs1 \<Rightarrow>
             if in_range 0x80 0xBF c then ((b - 0xC0) * 0x40 + (c - 0x80)) # utf8_decode bs1
             else 0xFFFD # utf8_decode bs)
      else if in_range 0xE0 0xEF b then
        (case bs of
           [] \<Rightarrow> [0xFFFD]
         | c # bs1 \<Rightarrow>
             if in_range (if b = 0xE0 then 0xA0 else 0x80) (if b = 0xED then 0x9F else 0xBF) c then
               (case bs1 of
                  [] \<Rightarrow> [0xFFFD]
                | d # bs2 \<Rightarrow>
                    if in_range 0x80 0xBF d
                    then ((b - 0xE0) * 0x1000 + (c - 0x80) * 0x40 + (d - 0x80)) # utf8_decode bs2
                    else 0xFFFD # utf8_decode bs1)
             else 0xFFFD # utf8_decode bs)
      else if in_range 0xF0 0xF4 b then
        (case bs of
           [] \<Rightarrow> [0xFFFD]
         | c # bs1 \<Rightarrow>
             if in_range (if b = 0xF0 then 0x90 else 0x80) (if b = 0xF4 then 0x8F else 0xBF) c then
               (case bs1 of
                  [] \<Rightarrow> [0xFFFD]
                | d # bs2 \<Rightarrow>
                    if in_range 0x80 0xBF d then
                      (case bs2 of
                         [] \<Rightarrow> [0xFFFD]
                       | e # bs3 \<Rightarrow>
                           if in_range 0x80 0xBF e
                           then ((b - 0xF0) * 0x40000 + (c - 0x80) * 0x1000 + (d - 0x80) * 0x40
                                  + (e - 0x80)) # utf8_decode bs3
                           else 0xFFFD # utf8_decode bs2)
                    else 0xFFFD # utf8_decode bs1)
             else 0xFFFD # utf8_decode bs)
      else 0xFFFD # utf8_decode bs)"

declare utf8_decode.simps(2) [simp del]

text \<open>The Unicode scalar values: the code points that are not surrogates.\<close>

definition scalar_value :: "nat \<Rightarrow> bool" where
  "scalar_value cp = (cp < 0xD800 \<or> (0xE000 \<le> cp \<and> cp < 0x110000))"

text \<open>A code point as code units: one, or a surrogate pair above U+FFFF.\<close>

definition utf16_of_code_point :: "nat \<Rightarrow> jstring" where
  "utf16_of_code_point cp =
     (if cp < 0x10000 then [of_nat cp]
      else [of_nat (0xD800 + (cp - 0x10000) div 0x400), of_nat (0xDC00 + (cp - 0x10000) mod 0x400)])"

definition toString_utf8 :: "buffer \<Rightarrow> jstring" where
  "toString_utf8 buf = concat (map utf16_of_code_point (utf8_decode (map of_char buf)))"

text \<open>\<open>String.prototype.isWellFormed\<close>: the string has no surrogate outside a pair.\<close>

fun isWellFormed :: "jstring \<Rightarrow> bool" where
  "isWellFormed [] = True"
| "isWellFormed [u] = (\<not> is_high_surrogate u \<and> \<not> is_low_surrogate u)"
| "isWellFormed (u # v # rest) =
     (if is_high_surrogate u \<and> is_low_surrogate v then isWellFormed rest
      else \<not> is_high_surrogate u \<and> \<not> is_low_surrogate u \<and> isWellFormed (v # rest))"

section \<open>The text encoding base64url\<close>

text \<open>The sixty-four characters of the URL-safe alphabet, by sextet value.\<close>

definition sextet_char :: "nat \<Rightarrow> 16 word" where
  "sextet_char n =
     (if n < 26 then of_nat (65 + n)
      else if n < 52 then of_nat (97 + (n - 26))
      else if n < 62 then of_nat (48 + (n - 52))
      else if n = 62 then of_char CHR ''-'' else of_char CHR ''_'')"

definition base64url_alphabet :: "16 word set" where
  "base64url_alphabet = sextet_char ` {0..<64}"

text \<open>
  The decoder reads the low byte of each code unit. \<open>unbase64\<close> is the value of a unit: the
  standard and the URL-safe alphabet are accepted alike; \<open>None\<close> for a low byte that belongs
  to neither. \<open>is_pad\<close> tells the units that are read as \<open>=\<close>.
\<close>

definition low_byte :: "16 word \<Rightarrow> nat" where
  "low_byte u = unat u mod 256"

definition unbase64 :: "16 word \<Rightarrow> nat option" where
  "unbase64 u =
     (let n = low_byte u in
      if 65 \<le> n \<and> n \<le> 90 then Some (n - 65)
      else if 97 \<le> n \<and> n \<le> 122 then Some (n - 97 + 26)
      else if 48 \<le> n \<and> n \<le> 57 then Some (n - 48 + 52)
      else if n = of_char CHR ''-'' \<or> n = of_char CHR ''+'' then Some 62
      else if n = of_char CHR ''_'' \<or> n = of_char CHR ''/'' then Some 63
      else None)"

definition is_pad :: "16 word \<Rightarrow> bool" where
  "is_pad u = (low_byte u = of_char CHR ''='')"

text \<open>Bytes to sextets: three bytes give four sextets, a rest of one or two gives two or three.\<close>

fun sextets_of_bytes :: "nat list \<Rightarrow> nat list" where
  "sextets_of_bytes [] = []"
| "sextets_of_bytes [a] = [a div 4, (a mod 4) * 16]"
| "sextets_of_bytes [a, b] = [a div 4, (a mod 4) * 16 + b div 16, (b mod 16) * 4]"
| "sextets_of_bytes (a # b # c # rest) =
     [a div 4, (a mod 4) * 16 + b div 16, (b mod 16) * 4 + c div 64, c mod 64]
       @ sextets_of_bytes rest"

text \<open>
  Sextets to bytes: four sextets give three bytes; of an incomplete last group only the
  whole bytes are kept, and the bits left over are dropped without being looked at.
\<close>

fun bytes_of_sextets :: "nat list \<Rightarrow> nat list" where
  "bytes_of_sextets (p # q # r # s # rest) =
     [p * 4 + q div 16, (q mod 16) * 16 + r div 4, (r mod 4) * 64 + s] @ bytes_of_sextets rest"
| "bytes_of_sextets [p, q, r] = [p * 4 + q div 16, (q mod 16) * 16 + r div 4]"
| "bytes_of_sextets [p, q] = [p * 4 + q div 16]"
| "bytes_of_sextets _ = []"

text \<open>\<open>buf.toString("base64url")\<close>: no padding is written.\<close>

definition toString_base64url :: "buffer \<Rightarrow> jstring" where
  "toString_base64url buf = map sextet_char (sextets_of_bytes (map of_char buf))"

text \<open>
  \<open>Buffer.from(s, "base64url")\<close>: decoding stops at the first unit read as \<open>=\<close>, units
  outside the alphabets are skipped, and the remaining ones are regrouped into bytes.
\<close>

definition from_base64url :: "jstring \<Rightarrow> buffer" where
  "from_base64url s =
     map char_of (bytes_of_sextets
       (map the (filter (\<lambda>v. v \<noteq> None) (map unbase64 (takeWhile (\<lambda>c. \<not> is_pad c) s)))))"

section \<open>Splitting and joining strings\<close>

text \<open>
  \<open>String.prototype.split\<close> with a string separator: the pieces between the occurrences of
  the separator, found from left to right; with the empty separator, the single code units.
\<close>

function js_split_from :: "jstring \<Rightarrow> jstring \<Rightarrow> jstring \<Rightarrow> jstring list" where
  "js_split_from sep cur [] = [rev cur]"
| "js_split_from sep cur (c # cs) =
     (if sep \<noteq> [] \<and> take (length sep) (c # cs) = sep
      then rev cur # js_split_from sep [] (drop (length sep) (c # cs))
      else js_split_from sep (c # cur) cs)"
  by pat_completeness auto
termination
  by (relation "measure (\<lambda>(sep, cur, s). length s)") auto

definition js_split :: "jstring \<Rightarrow> jstring \<Rightarrow> jstring list" where
  "js_split sep s = (if sep = [] then map (\<lambda>c. [c]) s else js_split_from sep [] s)"

text \<open>\<open>Array.prototype.join\<close>.\<close>

fun js_join :: "jstring \<Rightarrow> jstring list \<Rightarrow> jstring" where
  "js_join sep [] = []"
| "js_join sep [p] = p"
| "js_join sep (p # q # ps) = p @ sep @ js_join sep (q # ps)"

section \<open>Errors\<close>

text \<open>
  The first four are the errors that \<open>oidc.ts\<close> throws itself (told apart by their messages);
  the others are thrown by what it calls: \<open>jwtDecode\<close>, \<open>new URL\<close>, \<open>fetch\<close>,
  \<open>response.json()\<close>, the cipher objects of \<open>node:crypto\<close>, a read of a missing
  segment in \<open>decrypt\<close>, and the destructuring of \<open>null\<close> in \<open>getExpiry\<close>.
\<close>

datatype error =
    StateMismatch
  | TokenExchangeFailed
  | RefreshFailed
  | ConfigUnavailable
  | InvalidTokenError
  | InvalidUrl
  | NetworkError
  | BodyNotJson
  | CipherFailure
  | MissingSegment
  | TypeError

section \<open>CryptoSuite\<close>

text \<open>
  What \<open>node:crypto\<close> does for the configured algorithm is a parameter. \<open>encipher key iv data\<close>
  stands for \<open>createCipheriv\<close>, \<open>update\<close>, \<open>final\<close> and the probe \<open>getAuthTag\<close>: the
  ciphertext and the tag, the tag \<open>None\<close> when the accessor is missing or throws.
  \<open>decipher key iv tag data\<close> stands for \<open>createDecipheriv\<close>, \<open>setAuthTag\<close> (called only
  when \<open>tag\<close> is not \<open>None\<close>), \<open>update\<close> and \<open>final\<close>. Either is \<open>None\<close> when a call throws.
\<close>

record cipher_algorithm =
  encipher :: "buffer \<Rightarrow> buffer \<Rightarrow> buffer \<Rightarrow> (buffer \<times> buffer option) option"
  decipher :: "buffer \<Rightarrow> buffer \<Rightarrow> buffer option \<Rightarrow> buffer \<Rightarrow> buffer option"

record crypto_options =
  ivLength :: nat
  separator :: jstring

definition DEFAULT_OPTIONS :: crypto_options where
  "DEFAULT_OPTIONS = \<lparr>ivLength = 16, separator = js ''.''\<rparr>"

record crypto_suite =
  algorithm :: cipher_algorithm
  key :: buffer
  options :: crypto_options

definition CryptoSuite_combine :: "crypto_suite \<Rightarrow> buffer \<Rightarrow> jstring \<Rightarrow> buffer option \<Rightarrow> jstring" where
  "CryptoSuite_combine cs iv ciphered authTag =
     (let parts = [toString_base64url iv, ciphered];
          parts' = (case authTag of Some t \<Rightarrow> parts @ [toString_base64url t] | None \<Rightarrow> parts)
      in js_join (separator (options cs)) parts')"

text \<open>
  \<open>#split\<close>: the first segment is the initialisation vector; the second (\<open>None\<close> when there
  is no second segment) stays text; the third is decoded only when it is there and not the
  empty string. A missing first segment makes \<open>Buffer.from\<close> throw. Segments after the third
  are not read.
\<close>

definition CryptoSuite_split ::
  "crypto_suite \<Rightarrow> jstring \<Rightarrow> error + (buffer \<times> jstring option \<times> buffer option)" where
  "CryptoSuite_split cs combined =
     (let parts = js_split (separator (options cs)) combined in
      if parts = [] then Inl MissingSegment
      else
        let iv = from_base64url (parts ! 0);
            ciphered = (if 1 < length parts then Some (parts ! 1) else None);
            authTag = (if 2 < length parts \<and> parts ! 2 \<noteq> []
                       then Some (from_base64url (parts ! 2)) else None)
        in Inr (iv, ciphered, authTag))"

text \<open>
  \<open>encrypt\<close>; \<open>randomBytes\<close> is the source of random bytes, by length. The cipher is fed the
  bytes of the plaintext in the input encoding. The two pieces of ciphertext text that
  \<open>update\<close> and \<open>final\<close> return are, joined, the base64url text of the whole ciphertext.
\<close>

definition CryptoSuite_encrypt :: "crypto_suite \<Rightarrow> (nat \<Rightarrow> buffer) \<Rightarrow> jstring \<Rightarrow> error + jstring" where
  "CryptoSuite_encrypt cs randomBytes data =
     (let iv = randomBytes (ivLength (options cs)) in
      case encipher (algorithm cs) (key cs) iv (Buffer_from_utf8 data) of
        None \<Rightarrow> Inl CipherFailure
      | Some (ct, authTag) \<Rightarrow> Inr (CryptoSuite_combine cs iv (toString_base64url ct) authTag))"

text \<open>
  \<open>decrypt\<close> throws when a segment it needs is missing or when the decipher throws; which
  of the two errors comes first where both would is not told apart. The two pieces of text
  that \<open>update\<close> and \<open>final\<close> return are, joined, the deciphered bytes read in the input
  encoding.
\<close>

definition CryptoSuite_decrypt :: "crypto_suite \<Rightarrow> jstring \<Rightarrow> error + jstring" where
  "CryptoSuite_decrypt cs data =
     (case CryptoSuite_split cs data of
        Inl e \<Rightarrow> Inl e
      | Inr (iv, ciphered, authTag) \<Rightarrow>
          (case ciphered of
             None \<Rightarrow> Inl MissingSegment
           | Some ct \<Rightarrow>
               (case decipher (algorithm cs) (key cs) iv authTag (from_base64url ct) of
                  None \<Rightarrow> Inl CipherFailure
                | Some deciphered \<Rightarrow> Inr (toString_utf8 deciphered))))"

section \<open>JSON values and the run-time type guards\<close>

text \<open>
  What \<open>JSON.parse\<close> and \<open>response.json()\<close> yield. A number is the value of the double; an
  object is the list of its members, each key once. \<open>typeof_object\<close> is
  \<open>typeof v === "object"\<close> (true of \<open>null\<close> and of arrays as well), \<open>member v k\<close> is \<open>v.k\<close>
  with \<open>None\<close> for \<open>undefined\<close>, and \<open>has_key k v\<close> is \<open>k in v\<close>; none of the keys asked
  for is a property of an array, of a string, of a number or of a boolean.
\<close>

datatype json =
    JNull
  | JBool bool
  | JNumber real
  | JString jstring
  | JArray "json list"
  | JObject "(jstring \<times> json) list"

definition typeof_object :: "json \<Rightarrow> bool" where
  "typeof_object v = (case v of JNull \<Rightarrow> True | JArray _ \<Rightarrow> True | JObject _ \<Rightarrow> True | _ \<Rightarrow> False)"

definition member :: "json \<Rightarrow> jstring \<Rightarrow> json option" where
  "member v k = (case v of JObject kvs \<Rightarrow> map_of kvs k | _ \<Rightarrow> None)"

definition has_key :: "jstring \<Rightarrow> json \<Rightarrow> bool" where
  "has_key k v = (member v k \<noteq> None)"

definition typeof_string :: "json option \<Rightarrow> bool" where
  "typeof_string v = (case v of Some (JString _) \<Rightarrow> True | _ \<Rightarrow> False)"

text \<open>The truthiness of a value: \<open>null\<close>, \<open>false\<close>, zero and the empty string are falsy.\<close>

definition json_truthy :: "json \<Rightarrow> bool" where
  "json_truthy v =
     (case v of JNull \<Rightarrow> False | JBool b \<Rightarrow> b | JNumber n \<Rightarrow> n \<noteq> 0 | JString t \<Rightarrow> t \<noteq> []
      | JArray _ \<Rightarrow> True | JObject _ \<Rightarrow> True)"

record response =
  status :: nat
  body :: "json option"

text \<open>\<open>response.ok\<close>; \<open>body\<close> is \<open>None\<close> when the body is not JSON and \<open>response.json()\<close> rejects.\<close>

definition ok :: "response \<Rightarrow> bool" where
  "ok r = (200 \<le> status r \<and> status r \<le> 299)"

definition isExpiredSession :: "response \<Rightarrow> json \<Rightarrow> bool" where
  "isExpiredSession r data =
     (status r = 400 \<and>
      data \<noteq> JNull \<and>
      typeof_object data \<and>
      has_key (js ''error'') data \<and>
      member data (js ''error'') = Some (JString (js ''invalid_grant'')) \<and>
      has_key (js ''error_description'') data \<and>
      member data (js ''error_description'') = Some (JString (js ''Session not active'')))"

definition isRealmConfig :: "json \<Rightarrow> bool" where
  "isRealmConfig v =
     (v \<noteq> JNull \<and>
      typeof_object v \<and>
      has_key (js ''authorization_endpoint'') v \<and>
      typeof_string (member v (js ''authorization_endpoint'')) \<and>
      has_key (js ''token_endpoint'') v \<and>
      typeof_string (member v (js ''token_endpoint'')) \<and>
      has_key (js ''end_session_endpoint'') v \<and>
      typeof_string (member v (js ''end_session_endpoint'')))"

definition isTokens :: "json \<Rightarrow> bool" where
  "isTokens v =
     (v \<noteq> JNull \<and>
      typeof_object v \<and>
      has_key (js ''access_token'') v \<and>
      typeof_string (member v (js ''access_token'')) \<and>
      has_key (js ''refresh_token'') v \<and>
      typeof_string (member v (js ''refresh_token'')))"

text \<open>The text of a member that a guard has found to be a string.\<close>

definition string_member :: "json \<Rightarrow> jstring \<Rightarrow> jstring" where
  "string_member v k = (case member v k of Some (JString s) \<Rightarrow> s | _ \<Rightarrow> js ''undefined'')"

section \<open>URLs, requests and the platform\<close>

text \<open>
  A \<open>URL\<close> object: \<open>address\<close> is the URL but for its query, \<open>searchParams\<close> the entries of
  the query.
\<close>

record url =
  address :: jstring
  searchParams :: "(jstring \<times> jstring) list"

text \<open>\<open>URLSearchParams.set\<close>: the first entry of the name gets the value, later ones go.\<close>

fun params_set :: "jstring \<Rightarrow> jstring \<Rightarrow> (jstring \<times> jstring) list \<Rightarrow> (jstring \<times> jstring) list" where
  "params_set k v [] = [(k, v)]"
| "params_set k v ((k', v') # ps) =
     (if k' = k then (k, v) # filter (\<lambda>p. fst p \<noteq> k) ps else (k', v') # params_set k v ps)"

definition searchParams_set :: "jstring \<Rightarrow> jstring \<Rightarrow> url \<Rightarrow> url" where
  "searchParams_set k v u = u\<lparr>searchParams := params_set k v (searchParams u)\<rparr>"

datatype request =
    Get jstring
  | Post url "(jstring \<times> jstring) list"

text \<open>
  The environment of one \<open>OIDC\<close> instance: the values of \<open>import.meta.env\<close> (\<open>KEY\<close> is
  the buffer made of \<open>OIDC_REFRESH_TOKEN_KEY\<close>) and the libraries. \<open>base64UrlDecode\<close> (of the package \<open>jwt-decode\<close>) and \<open>JSON_parse\<close> are \<open>None\<close>
  where they throw; \<open>URL_constructor\<close> is the object that \<open>new URL\<close> makes of a string, its
  query parsed into entries, \<open>None\<close> where it throws; \<open>fetch\<close> answers a request given the
  requests made before it, \<open>None\<close> when the promise rejects; \<open>randomBytes\<close> and
  \<open>random_state\<close> give the random bytes (by draw and length) and the value of
  \<open>Math.floor(Math.random() * 1e8)\<close> (by draw).
\<close>

record platform =
  BASE_URL :: jstring
  REALM :: jstring
  CLIENT_ID :: jstring
  CLIENT_SECRET :: jstring
  ALGORITHM :: cipher_algorithm
  KEY :: buffer
  base64UrlDecode :: "jstring \<Rightarrow> jstring option"
  JSON_parse :: "jstring \<Rightarrow> json option"
  URL_constructor :: "jstring \<Rightarrow> url option"
  fetch :: "request list \<Rightarrow> request \<Rightarrow> response option"
  randomBytes :: "nat \<Rightarrow> nat \<Rightarrow> buffer"
  random_state :: "nat \<Rightarrow> nat"

text \<open>
  \<open>jwtDecode\<close> of the package \<open>jwt-decode\<close>: the payload is the second of the parts that the
  dots of the token separate. The decoder throws when there is no second part, when the
  part is not base64url text, and when the text decoded is not JSON; what it returns is
  whatever value the text denotes, \<open>null\<close> included. \<open>None\<close> stands for the throw.
\<close>

definition jwtDecode :: "platform \<Rightarrow> jstring \<Rightarrow> json option" where
  "jwtDecode P token =
     (let parts = js_split (js ''.'') token in
      if length parts < 2 then None
      else (case base64UrlDecode P (parts ! 1) of
              None \<Rightarrow> None
            | Some decoded \<Rightarrow> JSON_parse P decoded))"

section \<open>The state of an OIDC instance\<close>

text \<open>
  The date \<open>new Date(1000 * exp)\<close>, kept as the value of \<open>exp\<close> that it is computed from.
\<close>

datatype js_date = Date_of_seconds json

record cookie =
  cookie_value :: jstring
  sameSite :: string
  httpOnly :: bool
  secure :: bool
  path :: string
  expires :: "js_date option"

datatype console_entry =
    Invalid_cookie error
  | Logged_response response
  | Logged_data json

text \<open>
  \<open>cookies\<close> is the cookie jar of the request, \<open>cachedConfig\<close> the private field of that
  name. \<open>requests\<close> (the calls of \<open>fetch\<close>, in order), \<open>draws\<close> (the number of random
  draws) and \<open>console\<close> record what the instance did to the world outside.
\<close>

record oidc =
  cookies :: "string \<rightharpoonup> cookie"
  cachedConfig :: "json option"
  requests :: "request list"
  draws :: nat
  console :: "console_entry list"

text \<open>
  An operation returns its result or the error it threw, and the state it leaves.
  \<open>andThen\<close> runs the second step only when the first did not throw.
\<close>

definition andThen ::
  "(oidc \<Rightarrow> (error + 'a) \<times> oidc) \<Rightarrow> ('a \<Rightarrow> oidc \<Rightarrow> (error + 'b) \<times> oidc) \<Rightarrow> oidc \<Rightarrow> (error + 'b) \<times> oidc" where
  "andThen m f s = (case m s of (Inl e, s') \<Rightarrow> (Inl e, s') | (Inr x, s') \<Rightarrow> f x s')"

definition lift :: "error + 'a \<Rightarrow> oidc \<Rightarrow> (error + 'a) \<times> oidc" where
  "lift r s = (r, s)"

text \<open>JavaScript truthiness of \<open>string | undefined\<close>: neither \<open>undefined\<close> nor empty.\<close>

definition truthy :: "jstring option \<Rightarrow> bool" where
  "truthy v = (case v of None \<Rightarrow> False | Some t \<Rightarrow> t \<noteq> [])"

section \<open>Cookies\<close>

text \<open>
  The base class \<open>Cookie\<close> (module \<open>./Cookie\<close>) is not among the sources. A cookie slot is
  a name in the jar of the request; the record \<open>cookie\<close> is what the jar holds under a name.
\<close>

text \<open>
  Modelled from the spec: \<open>Cookie.value\<close>, missing with the module \<open>./Cookie\<close>. The value
  stored under the name of the slot, absent when the jar has none.
\<close>

definition Cookie_value :: "string \<Rightarrow> oidc \<Rightarrow> jstring option" where
  "Cookie_value name s = map_option cookie_value (cookies s name)"

text \<open>
  Modelled from the spec: \<open>Cookie.set\<close>, missing with the module \<open>./Cookie\<close>. Stores the
  value under the name of the slot, with the base attributes
  \<open>SameSite=Lax, HttpOnly, Secure, Path=/\<close> and the expiry given.
\<close>

definition Cookie_set :: "string \<Rightarrow> jstring \<Rightarrow> js_date option \<Rightarrow> oidc \<Rightarrow> oidc" where
  "Cookie_set name v e s =
     s\<lparr>cookies := (cookies s)(name \<mapsto>
         \<lparr>cookie_value = v, sameSite = ''lax'', httpOnly = True, secure = True, path = ''/'',
          expires = e\<rparr>)\<rparr>"

text \<open>
  Modelled from the spec: \<open>Cookie.delete\<close>, missing with the module \<open>./Cookie\<close>. Removes
  the name of the slot from the jar.
\<close>

definition Cookie_delete :: "string \<Rightarrow> oidc \<Rightarrow> oidc" where
  "Cookie_delete name s = s\<lparr>cookies := (cookies s)(name := None)\<rparr>"

text \<open>
  \<open>getExpiry\<close>. The parameter is destructured, which throws when the decoded payload is
  \<open>null\<close>; of any other value \<open>exp\<close> is read, whatever it is, and the date is absent when
  \<open>exp\<close> is missing or falsy.
\<close>

definition getExpiry :: "json \<Rightarrow> error + js_date option" where
  "getExpiry jwt =
     (if jwt = JNull then Inl TypeError
      else (case member jwt (js ''exp'') of
              None \<Rightarrow> Inr None
            | Some e \<Rightarrow> Inr (if json_truthy e then Some (Date_of_seconds e) else None)))"

definition AuthStateCookie_value :: "oidc \<Rightarrow> jstring option" where
  "AuthStateCookie_value s = Cookie_value ''auth-state'' s"

definition AuthStateCookie_set :: "jstring \<Rightarrow> oidc \<Rightarrow> oidc" where
  "AuthStateCookie_set v s = Cookie_set ''auth-state'' v None s"

definition AccessTokenCookie_value :: "oidc \<Rightarrow> jstring option" where
  "AccessTokenCookie_value s = Cookie_value ''access-token'' s"

text \<open>\<open>AccessTokenCookie.set\<close>: the token is decoded, then the expiry read, then the cookie stored.\<close>

definition AccessTokenCookie_set :: "platform \<Rightarrow> jstring \<Rightarrow> oidc \<Rightarrow> (error + unit) \<times> oidc" where
  "AccessTokenCookie_set P v s =
     (case jwtDecode P v of
        None \<Rightarrow> (Inl InvalidTokenError, s)
      | Some jwt \<Rightarrow>
          (case getExpiry jwt of
             Inl e \<Rightarrow> (Inl e, s)
           | Inr expiry \<Rightarrow> (Inr (), Cookie_set ''access-token'' v expiry s)))"

definition AccessTokenCookie_delete :: "oidc \<Rightarrow> oidc" where
  "AccessTokenCookie_delete s = Cookie_delete ''access-token'' s"

text \<open>The suite of the refresh-token slot: \<open>new CryptoSuite(ALGORITHM, KEY)\<close>.\<close>

definition RefreshTokenCookie_crypto :: "platform \<Rightarrow> crypto_suite" where
  "RefreshTokenCookie_crypto P = \<lparr>algorithm = ALGORITHM P, key = KEY P, options = DEFAULT_OPTIONS\<rparr>"

text \<open>
  \<open>RefreshTokenCookie.value\<close>: an absent or empty value is returned as it is; any other is
  decrypted, and an error thrown on the way is logged and turned into \<open>undefined\<close>.
\<close>

definition RefreshTokenCookie_value :: "platform \<Rightarrow> oidc \<Rightarrow> jstring option \<times> oidc" where
  "RefreshTokenCookie_value P s =
     (case Cookie_value ''refresh-token'' s of
        None \<Rightarrow> (None, s)
      | Some v \<Rightarrow>
          if v = [] then (Some v, s)
          else (case CryptoSuite_decrypt (RefreshTokenCookie_crypto P) v of
                  Inl err \<Rightarrow> (None, s\<lparr>console := console s @ [Invalid_cookie err]\<rparr>)
                | Inr t \<Rightarrow> (Some t, s)))"

text \<open>
  \<open>RefreshTokenCookie.set\<close>: the token is decoded; of the arguments of \<open>super.set\<close> the
  encrypted token comes first and the expiry second, so the token is encrypted before the
  expiry is read.
\<close>

definition RefreshTokenCookie_set :: "platform \<Rightarrow> jstring \<Rightarrow> oidc \<Rightarrow> (error + unit) \<times> oidc" where
  "RefreshTokenCookie_set P v s =
     (case jwtDecode P v of
        None \<Rightarrow> (Inl InvalidTokenError, s)
      | Some jwt \<Rightarrow>
          (let s1 = s\<lparr>draws := draws s + 1\<rparr> in
           case CryptoSuite_encrypt (RefreshTokenCookie_crypto P) (randomBytes P (draws s)) v of
             Inl e \<Rightarrow> (Inl e, s1)
           | Inr c \<Rightarrow>
               (case getExpiry jwt of
                  Inl e \<Rightarrow> (Inl e, s1)
                | Inr expiry \<Rightarrow> (Inr (), Cookie_set ''refresh-token'' c expiry s1))))"

definition RefreshTokenCookie_delete :: "oidc \<Rightarrow> oidc" where
  "RefreshTokenCookie_delete s = Cookie_delete ''refresh-token'' s"


section \<open>The OIDC class\<close>

text \<open>The constructor: a new instance over the cookie jar of a request.\<close>

definition new_OIDC :: "(string \<rightharpoonup> cookie) \<Rightarrow> oidc" where
  "new_OIDC jar = \<lparr>cookies = jar, cachedConfig = None, requests = [], draws = 0, console = []\<rparr>"

text \<open>The private getters \<open>#accessToken\<close>, \<open>#refreshToken\<close> and \<open>#authState\<close>.\<close>

definition accessToken :: "oidc \<Rightarrow> jstring option" where
  "accessToken s = AccessTokenCookie_value s"

definition refreshToken :: "platform \<Rightarrow> oidc \<Rightarrow> jstring option \<times> oidc" where
  "refreshToken P s = RefreshTokenCookie_value P s"

definition authState :: "oidc \<Rightarrow> jstring option" where
  "authState s = AuthStateCookie_value s"

text \<open>\<open>await fetch(request)\<close>, and \<open>await response.json()\<close>.\<close>

definition await_fetch :: "platform \<Rightarrow> request \<Rightarrow> oidc \<Rightarrow> (error + response) \<times> oidc" where
  "await_fetch P req s =
     ((case fetch P (requests s) req of None \<Rightarrow> Inl NetworkError | Some r \<Rightarrow> Inr r),
      s\<lparr>requests := requests s @ [req]\<rparr>)"

definition response_json :: "response \<Rightarrow> error + json" where
  "response_json r = (case body r of None \<Rightarrow> Inl BodyNotJson | Some data \<Rightarrow> Inr data)"

text \<open>\<open>new URL(v)\<close>, for a value read from the realm configuration.\<close>

definition new_URL :: "platform \<Rightarrow> json option \<Rightarrow> error + url" where
  "new_URL P v =
     (case v of
        Some (JString u) \<Rightarrow>
          (case URL_constructor P u of None \<Rightarrow> Inl InvalidUrl | Some parsed \<Rightarrow> Inr parsed)
      | _ \<Rightarrow> Inl InvalidUrl)"

definition getRealmConfig :: "platform \<Rightarrow> oidc \<Rightarrow> (error + json) \<times> oidc" where
  "getRealmConfig P s =
     (case cachedConfig s of
        Some config \<Rightarrow> (Inr config, s)
      | None \<Rightarrow>
          andThen (await_fetch P (Get (REALM P @ js ''/.well-known/openid-configuration''))) (\<lambda>response.
          andThen (lift (response_json response)) (\<lambda>data s'.
            if \<not> isRealmConfig data then (Inl ConfigUnavailable, s')
            else (Inr data, s'\<lparr>cachedConfig := Some data\<rparr>))) s)"

definition createAuthorizationCodeRequest :: "platform \<Rightarrow> jstring \<Rightarrow> oidc \<Rightarrow> (error + request) \<times> oidc" where
  "createAuthorizationCodeRequest P code =
     andThen (getRealmConfig P) (\<lambda>config.
     andThen (lift (new_URL P (member config (js ''token_endpoint'')))) (\<lambda>tokenUrl.
       lift (Inr (Post tokenUrl
         (params_set (js ''redirect_uri'') (BASE_URL P @ js ''/login'')
         (params_set (js ''code'') code
         (params_set (js ''grant_type'') (js ''authorization_code'')
         (params_set (js ''client_secret'') (CLIENT_SECRET P)
         (params_set (js ''client_id'') (CLIENT_ID P) [])))))))))"

definition createRefreshTokenRequest :: "platform \<Rightarrow> jstring \<Rightarrow> oidc \<Rightarrow> (error + request) \<times> oidc" where
  "createRefreshTokenRequest P token =
     andThen (getRealmConfig P) (\<lambda>config.
     andThen (lift (new_URL P (member config (js ''token_endpoint'')))) (\<lambda>tokenUrl.
       lift (Inr (Post tokenUrl
         (params_set (js ''refresh_token'') token
         (params_set (js ''grant_type'') (js ''refresh_token'')
         (params_set (js ''client_secret'') (CLIENT_SECRET P)
         (params_set (js ''client_id'') (CLIENT_ID P) []))))))))"

definition deleteTokens :: "oidc \<Rightarrow> oidc" where
  "deleteTokens s = RefreshTokenCookie_delete (AccessTokenCookie_delete s)"

definition logout :: "platform \<Rightarrow> oidc \<Rightarrow> (error + url) \<times> oidc" where
  "logout P s =
     andThen (getRealmConfig P) (\<lambda>config.
     andThen (lift (new_URL P (member config (js ''end_session_endpoint'')))) (\<lambda>logoutUrl.
       lift (Inr (searchParams_set (js ''client_id'') (CLIENT_ID P)
                 (searchParams_set (js ''post_logout_redirect_uri'') (BASE_URL P @ js ''/'')
                    logoutUrl)))))
     (deleteTokens s)"

text \<open>
  \<open>refresh\<close>. The getter \<open>#refreshToken\<close> is read twice, for the test and for the request;
  the text of \<open>undefined\<close> stands where the second read finds nothing.
\<close>

definition refresh :: "platform \<Rightarrow> oidc \<Rightarrow> (error + unit) \<times> oidc" where
  "refresh P s =
     (case refreshToken P s of (rt, s0) \<Rightarrow>
      if \<not> truthy rt then (Inr (), s0)
      else
        (case refreshToken P s0 of (rt', s1) \<Rightarrow>
         andThen (createRefreshTokenRequest P (case rt' of Some t \<Rightarrow> t | None \<Rightarrow> js ''undefined'')) (\<lambda>request.
         andThen (await_fetch P request) (\<lambda>response.
         andThen (lift (response_json response)) (\<lambda>data s2.
           (let s3 = s2\<lparr>console := console s2 @ [Logged_response response, Logged_data data]\<rparr> in
            if isExpiredSession response data then (Inr (), deleteTokens s3)
            else if \<not> ok response \<or> \<not> isTokens data then (Inl RefreshFailed, s3)
            else
              andThen (AccessTokenCookie_set P (string_member data (js ''access_token''))) (\<lambda>_.
                RefreshTokenCookie_set P (string_member data (js ''refresh_token''))) s3)))) s1))"

definition getAccessToken :: "platform \<Rightarrow> oidc \<Rightarrow> (error + jstring option) \<times> oidc" where
  "getAccessToken P s =
     (let current = accessToken s in
      if truthy current then (Inr current, s)
      else andThen (refresh P) (\<lambda>_ s'. (Inr (accessToken s'), s')) s)"

definition isLoggedIn :: "platform \<Rightarrow> oidc \<Rightarrow> bool \<times> oidc" where
  "isLoggedIn P s = (case refreshToken P s of (rt, s') \<Rightarrow> (truthy rt, s'))"

text \<open>
  \<open>getExpirations\<close>: a token that is read and is not empty is decoded, which may throw; of
  the payload \<open>exp\<close> is read through \<open>?.\<close>, which does not throw on \<open>null\<close>; the date is
  absent when there is no token or its \<open>exp\<close> is missing or falsy.
\<close>

definition decoded_expiry :: "platform \<Rightarrow> jstring option \<Rightarrow> error + js_date option" where
  "decoded_expiry P t =
     (if truthy t then
        (case jwtDecode P (the t) of
           None \<Rightarrow> Inl InvalidTokenError
         | Some jwt \<Rightarrow>
             Inr (case member jwt (js ''exp'') of
                    None \<Rightarrow> None
                  | Some e \<Rightarrow> if json_truthy e then Some (Date_of_seconds e) else None))
      else Inr None)"

definition getExpirations ::
  "platform \<Rightarrow> oidc \<Rightarrow> (error + (js_date option \<times> js_date option)) \<times> oidc" where
  "getExpirations P s =
     andThen (lift (decoded_expiry P (accessToken s))) (\<lambda>atExp s0.
       case refreshToken P s0 of (rt, s1) \<Rightarrow>
         andThen (lift (decoded_expiry P rt)) (\<lambda>rtExp. lift (Inr (atExp, rtExp))) s1) s"

text \<open>The decimal text of a number, and \<open>generateRandomState\<close>.\<close>

function show_nat :: "nat \<Rightarrow> jstring" where
  "show_nat n =
     (if n < 10 then [of_nat (48 + n)] else show_nat (n div 10) @ [of_nat (48 + n mod 10)])"
  by pat_completeness auto
termination
  by (relation "measure id") auto

declare show_nat.simps [simp del]

definition generateRandomState :: "platform \<Rightarrow> oidc \<Rightarrow> jstring \<times> oidc" where
  "generateRandomState P s = (show_nat (random_state P (draws s)), s\<lparr>draws := draws s + 1\<rparr>)"

definition startLoginFlow :: "platform \<Rightarrow> oidc \<Rightarrow> (error + url) \<times> oidc" where
  "startLoginFlow P s =
     (case generateRandomState P s of (state, s0) \<Rightarrow>
      andThen (getRealmConfig P) (\<lambda>config.
      andThen (lift (new_URL P (member config (js ''authorization_endpoint'')))) (\<lambda>authUrl.
        lift (Inr (searchParams_set (js ''state'') state
                  (searchParams_set (js ''redirect_uri'') (BASE_URL P @ js ''/login'')
                  (searchParams_set (js ''response_type'') (js ''code'')
                  (searchParams_set (js ''client_id'') (CLIENT_ID P) authUrl)))))))
      (AuthStateCookie_set state s0))"

text \<open>\<open>completeLoginFlow\<close>; the argument \<open>state\<close> is \<open>None\<close> for \<open>null\<close>.\<close>

definition completeLoginFlow ::
  "platform \<Rightarrow> jstring option \<Rightarrow> jstring \<Rightarrow> oidc \<Rightarrow> (error + jstring) \<times> oidc" where
  "completeLoginFlow P state code s =
     (if state = None \<or> state \<noteq> authState s then (Inl StateMismatch, s)
      else
        andThen (createAuthorizationCodeRequest P code) (\<lambda>request.
        andThen (await_fetch P request) (\<lambda>response.
        andThen (lift (response_json response)) (\<lambda>data s'.
          if \<not> ok response \<or> \<not> isTokens data then (Inl TokenExchangeFailed, s')
          else
            andThen (AccessTokenCookie_set P (string_member data (js ''access_token''))) (\<lambda>_.
            andThen (RefreshTokenCookie_set P (string_member data (js ''refresh_token''))) (\<lambda>_.
              lift (Inr (js ''/'')))) s'))) s)"

text \<open>\<open>handleLoginFlow\<close>; \<open>params.get\<close> is the first value of a name.\<close>

definition handleLoginFlow ::
  "platform \<Rightarrow> (jstring \<times> jstring) list \<Rightarrow> oidc \<Rightarrow> (error + (url + jstring)) \<times> oidc" where
  "handleLoginFlow P params s =
     (let state = map_of params (js ''state''); code = map_of params (js ''code'') in
      if truthy code
      then andThen (completeLoginFlow P state (the code)) (\<lambda>p. lift (Inr (Inr p))) s
      else andThen (startLoginFlow P) (\<lambda>u. lift (Inr (Inl u))) s)"

section \<open>Notions that the statements use\<close>

text \<open>
  A configuration of \<open>CryptoSuite\<close> is supported when the separator is not empty and shares
  no code unit with the base64url alphabet, and the cipher is one whose decipher, given the
  key, the initialisation vector and the tag of an encipherment, returns the data that was
  enciphered; a tag, where the mode has one, is not empty.
\<close>

definition supported :: "crypto_suite \<Rightarrow> bool" where
  "supported cs \<longleftrightarrow>
     separator (options cs) \<noteq> [] \<and>
     set (separator (options cs)) \<inter> base64url_alphabet = {} \<and>
     (\<forall>iv data ct tag. encipher (algorithm cs) (key cs) iv data = Some (ct, tag) \<longrightarrow>
        tag \<noteq> Some [] \<and> decipher (algorithm cs) (key cs) iv tag ct = Some data)"



text \<open>Whether a request is a refresh grant sent to the token endpoint.\<close>

definition is_refresh_grant :: "request \<Rightarrow> bool" where
  "is_refresh_grant req =
     (case req of
        Get _ \<Rightarrow> False
      | Post _ form \<Rightarrow> map_of form (js ''grant_type'') = Some (js ''refresh_token''))"

text \<open>The token cookies are paired when an access token is stored only beside a refresh token.\<close>

definition paired :: "oidc \<Rightarrow> bool" where
  "paired s \<longleftrightarrow> (cookies s ''access-token'' \<noteq> None \<longrightarrow> cookies s ''refresh-token'' \<noteq> None)"

section \<open>A platform to run the model on\<close>

text \<open>
  Two small ciphers stand in for \<open>node:crypto\<close> where the model is run on concrete input.
  \<open>demo_stream\<close> behaves like an unauthenticated stream mode: no tag, any ciphertext
  deciphers, and setting a tag throws. \<open>demo_aead\<close> behaves like an authenticated mode: the
  tag is computed from key, initialisation vector and data, and \<open>final\<close> throws unless the
  tag that was set is the right one.
\<close>

definition demo_tag :: "buffer \<Rightarrow> buffer \<Rightarrow> buffer \<Rightarrow> buffer" where
  "demo_tag k iv data = k @ iv @ data"

definition demo_stream :: cipher_algorithm where
  "demo_stream =
     \<lparr>encipher = (\<lambda>k iv data. Some (rev data, None)),
      decipher = (\<lambda>k iv tag ct. case tag of None \<Rightarrow> Some (rev ct) | Some _ \<Rightarrow> None)\<rparr>"

definition demo_aead :: cipher_algorithm where
  "demo_aead =
     \<lparr>encipher = (\<lambda>k iv data. Some (rev data, Some (demo_tag k iv data))),
      decipher = (\<lambda>k iv tag ct.
         if tag = Some (demo_tag k iv (rev ct)) then Some (rev ct) else None)\<rparr>"

definition demo_suite :: "cipher_algorithm \<Rightarrow> crypto_suite" where
  "demo_suite alg = \<lparr>algorithm = alg, key = ''k'', options = DEFAULT_OPTIONS\<rparr>"

definition demo_randomBytes :: "nat \<Rightarrow> buffer" where
  "demo_randomBytes n = replicate n (CHR 0x00)"

text \<open>
  A platform to run the model on: an identity provider whose discovery and token endpoints
  answer with the two responses given (\<open>None\<close>: the request fails), and the cipher given.
  The payload decoder is a small one: it leaves the payload segment as it is and knows three
  payload texts, \<open>a\<close> and \<open>r\<close> for objects with an \<open>exp\<close> and \<open>n\<close> for \<open>null\<close>. The URL
  constructor takes the https addresses that have neither query nor fragment.
\<close>

definition demo_config :: json where
  "demo_config = JObject
     [(js ''issuer'', JString (js ''https://idp'')),
      (js ''authorization_endpoint'', JString (js ''https://idp/auth'')),
      (js ''token_endpoint'', JString (js ''https://idp/token'')),
      (js ''end_session_endpoint'', JString (js ''https://idp/logout''))]"

definition demo_JSON_parse :: "jstring \<Rightarrow> json option" where
  "demo_JSON_parse text =
     (if text = js ''a'' then Some (JObject [(js ''exp'', JNumber 1700000300)])
      else if text = js ''r'' then Some (JObject [(js ''exp'', JNumber 1700001800)])
      else if text = js ''n'' then Some JNull
      else None)"

definition demo_URL :: "jstring \<Rightarrow> url option" where
  "demo_URL u =
     (if take 8 u = js ''https://'' \<and> of_char CHR ''?'' \<notin> set u \<and> of_char CHR ''#'' \<notin> set u
      then Some \<lparr>address = u, searchParams = []\<rparr> else None)"

definition demo_platform :: "cipher_algorithm \<Rightarrow> response option \<Rightarrow> response option \<Rightarrow> platform" where
  "demo_platform alg discovery token =
     \<lparr>BASE_URL = js ''https://app'', REALM = js ''https://idp'',
      CLIENT_ID = js ''demo'', CLIENT_SECRET = js ''secret'',
      ALGORITHM = alg, KEY = ''k'',
      base64UrlDecode = (\<lambda>part. Some part),
      JSON_parse = demo_JSON_parse,
      URL_constructor = demo_URL,
      fetch = (\<lambda>history req. case req of Get _ \<Rightarrow> discovery | Post _ _ \<Rightarrow> token),
      randomBytes = (\<lambda>draw n. demo_randomBytes n),
      random_state = (\<lambda>draw. 42)\<rparr>"

definition demo_cookie :: "jstring \<Rightarrow> cookie" where
  "demo_cookie v =
     \<lparr>cookie_value = v, sameSite = ''lax'', httpOnly = True, secure = True, path = ''/'',
      expires = None\<rparr>"

definition token_response :: "jstring \<Rightarrow> jstring \<Rightarrow> response" where
  "token_response a r =
     \<lparr>status = 200,
      body = Some (JObject [(js ''access_token'', JString a), (js ''refresh_token'', JString r)])\<rparr>"

definition discovery_ok :: "response option" where
  "discovery_ok = Some \<lparr>status = 200, body = Some demo_config\<rparr>"

text \<open>The jar of a logged-in browser whose access-token cookie has expired.\<close>

definition logged_in_jar :: "string \<rightharpoonup> cookie" where
  "logged_in_jar = [''refresh-token'' \<mapsto> demo_cookie (js ''AAAAAAAAAAAAAAAAAAAAAA.cy5yLmg'')]"

text \<open>The jar of a browser that was sent to the identity provider with the given state.\<close>

definition awaiting_jar :: "jstring \<Rightarrow> string \<rightharpoonup> cookie" where
  "awaiting_jar state = [''auth-state'' \<mapsto> demo_cookie state]"

text \<open>A discovery document that has the three endpoints and no \<open>issuer\<close>.\<close>

definition config_without_issuer :: json where
  "config_without_issuer = JObject
     [(js ''authorization_endpoint'', JString (js ''https://idp/auth'')),
      (js ''token_endpoint'', JString (js ''https://idp/token'')),
      (js ''end_session_endpoint'', JString (js ''https://idp/logout''))]"

section \<open>The encoding utf8 loses nothing but unpaired surrogates\<close>

lemma utf8_decode_ascii: "b < 0x80 \<Longrightarrow> utf8_decode (b # bs) = b # utf8_decode bs"
  by (simp add: utf8_decode.simps(2))

lemma utf8_decode_two:
  "0xC2 \<le> b \<Longrightarrow> b \<le> 0xDF \<Longrightarrow> 0x80 \<le> c \<Longrightarrow> c \<le> 0xBF \<Longrightarrow>
     utf8_decode (b # c # bs) = ((b - 0xC0) * 0x40 + (c - 0x80)) # utf8_decode bs"
  by (simp add: utf8_decode.simps(2) in_range_def)

lemma utf8_decode_three:
  "0xE0 \<le> b \<Longrightarrow> b \<le> 0xEF \<Longrightarrow> 0x80 \<le> c \<Longrightarrow> c \<le> 0xBF \<Longrightarrow>
   (b = 0xE0 \<Longrightarrow> 0xA0 \<le> c) \<Longrightarrow> (b = 0xED \<Longrightarrow> c \<le> 0x9F) \<Longrightarrow>
   0x80 \<le> d \<Longrightarrow> d \<le> 0xBF \<Longrightarrow>
     utf8_decode (b # c # d # bs)
       = ((b - 0xE0) * 0x1000 + (c - 0x80) * 0x40 + (d - 0x80)) # utf8_decode bs"
  by (simp add: utf8_decode.simps(2) in_range_def)

lemma utf8_decode_four:
  "0xF0 \<le> b \<Longrightarrow> b \<le> 0xF4 \<Longrightarrow> 0x80 \<le> c \<Longrightarrow> c \<le> 0xBF \<Longrightarrow>
   (b = 0xF0 \<Longrightarrow> 0x90 \<le> c) \<Longrightarrow> (b = 0xF4 \<Longrightarrow> c \<le> 0x8F) \<Longrightarrow>
   0x80 \<le> d \<Longrightarrow> d \<le> 0xBF \<Longrightarrow> 0x80 \<le> e \<Longrightarrow> e \<le> 0xBF \<Longrightarrow>
     utf8_decode (b # c # d # e # bs)
       = ((b - 0xF0) * 0x40000 + (c - 0x80) * 0x1000 + (d - 0x80) * 0x40 + (e - 0x80))
         # utf8_decode bs"
  by (simp add: utf8_decode.simps(2) in_range_def)


lemma digits_base_64:
  fixes cp :: nat
  shows "cp div 0x1000 = cp div 0x40 div 0x40" "cp div 0x40000 = cp div 0x40 div 0x40 div 0x40"
  by (simp_all add: div_mult2_eq)

lemma utf8_decode_code_point:
  assumes "scalar_value cp"
  shows "utf8_decode (utf8_of_code_point cp @ rest) = cp # utf8_decode rest"
proof -
  define m0 where "m0 = cp mod 0x40"
  define a where "a = cp div 0x40"
  define m1 where "m1 = a mod 0x40"
  define b where "b = a div 0x40"
  define m2 where "m2 = b mod 0x40"
  define c where "c = b div 0x40"
  have e0: "cp = a * 0x40 + m0" and l0: "m0 < 0x40" by (simp_all add: m0_def a_def)
  have e1: "a = b * 0x40 + m1" and l1: "m1 < 0x40" by (simp_all add: m1_def b_def)
  have e2: "b = c * 0x40 + m2" and l2: "m2 < 0x40" by (simp_all add: m2_def c_def)
  have d: "cp div 0x40 = a" "cp mod 0x40 = m0" "cp div 0x40 mod 0x40 = m1" "cp div 0x1000 = b"
    "cp div 0x1000 mod 0x40 = m2" "cp div 0x40000 = c" "a mod 0x40 = m1" "b mod 0x40 = m2"
    by (simp_all add: digits_base_64 m0_def a_def m1_def b_def m2_def c_def)
  consider (one) "cp < 0x80" | (two) "0x80 \<le> cp" "cp < 0x800"
    | (three) "0x800 \<le> cp" "cp < 0x10000" | (four) "0x10000 \<le> cp" by linarith
  then show ?thesis
  proof cases
    case one
    then show ?thesis by (simp add: utf8_of_code_point_def utf8_decode_ascii)
  next
    case two
    have bytes: "utf8_of_code_point cp = [0xC0 + a, 0x80 + m0]"
      using two by (simp add: utf8_of_code_point_def d)
    have "utf8_decode ((0xC0 + a) # (0x80 + m0) # rest)
            = ((0xC0 + a - 0xC0) * 0x40 + (0x80 + m0 - 0x80)) # utf8_decode rest"
      using two e0 l0 by (intro utf8_decode_two) linarith+
    moreover have "a * 0x40 + m0 = cp" using e0 by simp
    ultimately show ?thesis by (simp add: bytes)
  next
    case three
    have bytes: "utf8_of_code_point cp = [0xE0 + b, 0x80 + m1, 0x80 + m0]"
      using three by (simp add: utf8_of_code_point_def d)
    have s: "cp < 0xD800 \<or> 0xE000 \<le> cp" using assms by (auto simp: scalar_value_def)
    have "utf8_decode ((0xE0 + b) # (0x80 + m1) # (0x80 + m0) # rest)
            = ((0xE0 + b - 0xE0) * 0x1000 + (0x80 + m1 - 0x80) * 0x40 + (0x80 + m0 - 0x80))
              # utf8_decode rest"
      using three e0 l0 e1 l1 s by (intro utf8_decode_three) linarith+
    moreover have "b * 0x1000 + m1 * 0x40 + m0 = cp" using e0 e1 by simp
    ultimately show ?thesis by (simp add: bytes)
  next
    case four
    have top: "cp < 0x110000" using four assms by (auto simp: scalar_value_def)
    have bytes: "utf8_of_code_point cp = [0xF0 + c, 0x80 + m2, 0x80 + m1, 0x80 + m0]"
      using four by (simp add: utf8_of_code_point_def d)
    have "utf8_decode ((0xF0 + c) # (0x80 + m2) # (0x80 + m1) # (0x80 + m0) # rest)
            = ((0xF0 + c - 0xF0) * 0x40000 + (0x80 + m2 - 0x80) * 0x1000
                + (0x80 + m1 - 0x80) * 0x40 + (0x80 + m0 - 0x80)) # utf8_decode rest"
      using four top e0 l0 e1 l1 e2 l2 by (intro utf8_decode_four) linarith+
    moreover have "c * 0x40000 + m2 * 0x1000 + m1 * 0x40 + m0 = cp" using e0 e1 e2 by simp
    ultimately show ?thesis by (simp add: bytes)
  qed
qed


lemma utf8_decode_code_points:
  "\<forall>cp \<in> set cps. scalar_value cp \<Longrightarrow> utf8_decode (concat (map utf8_of_code_point cps)) = cps"
  by (induction cps) (simp_all add: utf8_decode_code_point)

lemma unat_unit_less: "unat (u :: 16 word) < 0x10000"
  using unsigned_less [of u, where ?'a = nat] by simp

lemma scalar_value_unit: "scalar_value (code_point_of_unit u)"
  using unat_unit_less [of u]
  by (auto simp: scalar_value_def code_point_of_unit_def is_high_surrogate_def is_low_surrogate_def)

lemma scalar_value_pair:
  "is_high_surrogate u \<Longrightarrow> is_low_surrogate v \<Longrightarrow>
     scalar_value (0x10000 + (unat u - 0xD800) * 0x400 + (unat v - 0xDC00))"
  unfolding scalar_value_def is_high_surrogate_def is_low_surrogate_def by linarith

lemma scalar_value_code_points: "\<forall>cp \<in> set (code_points s). scalar_value cp"
  by (induction s rule: code_points.induct) (simp_all add: scalar_value_unit scalar_value_pair)

lemma utf8_of_code_point_bytes:
  "scalar_value cp \<Longrightarrow> \<forall>b \<in> set (utf8_of_code_point cp). b < 256"
proof -
  assume "scalar_value cp"
  then have top: "cp < 0x110000" by (auto simp: scalar_value_def)
  have m: "cp mod 0x40 < 0x40" "cp div 0x40 mod 0x40 < 0x40" "cp div 0x1000 mod 0x40 < 0x40"
    by simp_all
  have "cp < 0x800 \<Longrightarrow> cp div 0x40 < 0x20" "cp < 0x10000 \<Longrightarrow> cp div 0x1000 < 0x10"
    "cp div 0x40000 < 0x8"
    using top by (simp_all add: less_mult_imp_div_less)
  with m show ?thesis by (auto simp: utf8_of_code_point_def)
qed

lemma utf8_bytes:
  "\<forall>b \<in> set (concat (map utf8_of_code_point (code_points s))). b < 256"
  using scalar_value_code_points [of s] utf8_of_code_point_bytes by auto

lemma of_char_char_of_bytes: "\<forall>b \<in> set bs. b < 256 \<Longrightarrow> map of_char (map char_of bs) = (bs :: nat list)"
  by (induction bs) simp_all

text \<open>Encoding and decoding again gives the string with each unpaired surrogate replaced.\<close>

lemma toString_utf8_Buffer_from_utf8:
  "toString_utf8 (Buffer_from_utf8 s) = concat (map utf16_of_code_point (code_points s))"
  unfolding toString_utf8_def Buffer_from_utf8_def
  by (simp only: of_char_char_of_bytes [OF utf8_bytes]
        utf8_decode_code_points [OF scalar_value_code_points])

lemma utf16_of_unit:
  "\<not> is_high_surrogate u \<Longrightarrow> \<not> is_low_surrogate u \<Longrightarrow>
     utf16_of_code_point (code_point_of_unit u) = [u]"
  using unat_unit_less [of u] by (simp add: utf16_of_code_point_def code_point_of_unit_def)

lemma utf16_of_pair:
  assumes "is_high_surrogate u" "is_low_surrogate v"
  shows "utf16_of_code_point (0x10000 + (unat u - 0xD800) * 0x400 + (unat v - 0xDC00)) = [u, v]"
proof -
  define h where "h = unat u - 0xD800"
  define l where "l = unat v - 0xDC00"
  have l: "l < 0x400" using assms(2) unfolding l_def is_low_surrogate_def by linarith
  have hu: "0xD800 + h = unat u" using assms(1) unfolding h_def is_high_surrogate_def by linarith
  have lv: "0xDC00 + l = unat v" using assms(2) unfolding l_def is_low_surrogate_def by linarith
  have "(h * 0x400 + l) div 0x400 = h" "(h * 0x400 + l) mod 0x400 = l" using l by simp_all
  then have "utf16_of_code_point (0x10000 + h * 0x400 + l)
               = [of_nat (0xD800 + h), of_nat (0xDC00 + l)]"
    by (simp add: utf16_of_code_point_def)
  also have "\<dots> = [u, v]" by (simp only: hu lv) simp
  finally show ?thesis by (simp add: h_def l_def)
qed

lemma utf16_of_code_points:
  "isWellFormed s \<Longrightarrow> concat (map utf16_of_code_point (code_points s)) = s"
proof (induction s rule: code_points.induct)
  case 1
  show ?case by simp
next
  case (2 u)
  then show ?case by (simp add: utf16_of_unit)
next
  case (3 u v rest)
  show ?case
  proof (cases "is_high_surrogate u \<and> is_low_surrogate v")
    case True
    with 3 show ?thesis by (simp add: utf16_of_pair)
  next
    case False
    with 3 show ?thesis by (simp add: utf16_of_unit)
  qed
qed

lemma utf8_lossless: "isWellFormed s \<Longrightarrow> toString_utf8 (Buffer_from_utf8 s) = s"
  by (simp add: toString_utf8_Buffer_from_utf8 utf16_of_code_points)


section \<open>The base64url encoding is lossless\<close>

lemma bytes_of_sextets_inverse:
  "\<forall>b \<in> set bs. b < 256 \<Longrightarrow> bytes_of_sextets (sextets_of_bytes bs) = bs"
proof (induction bs rule: sextets_of_bytes.induct)
  case 1
  show ?case by simp
next
  case (2 a)
  then show ?case by simp
next
  case (3 a b)
  then have "a < 256" "b < 256" by simp_all
  then show ?case by simp
next
  case (4 a b c rest)
  then have "a < 256" "b < 256" "c < 256" by simp_all
  moreover have "bytes_of_sextets (sextets_of_bytes rest) = rest" using 4 by simp
  ultimately show ?case by simp
qed

lemma sextets_of_bytes_bound:
  "\<forall>b \<in> set bs. b < 256 \<Longrightarrow> \<forall>s \<in> set (sextets_of_bytes bs). s < 64"
  by (induction bs rule: sextets_of_bytes.induct) auto

lemma low_byte_of_nat: "m < 256 \<Longrightarrow> low_byte (of_nat m) = m"
  by (simp add: low_byte_def unat_of_nat)

lemma low_byte_of_char: "low_byte (of_char c) = of_char c"
proof -
  have "(of_char c :: 16 word) = of_nat (of_char c)" by (simp only: of_nat_of_char)
  moreover have "(of_char c :: nat) < 256" by simp
  ultimately show ?thesis by (simp only: low_byte_of_nat)
qed

lemma low_byte_sextet_char:
  assumes "n < 64"
  shows "low_byte (sextet_char n) =
     (if n < 26 then 65 + n else if n < 52 then 97 + (n - 26) else if n < 62 then 48 + (n - 52)
      else if n = 62 then 45 else 95)"
proof -
  consider (upper) "n < 26" | (lower) "26 \<le> n" "n < 52" | (digit) "52 \<le> n" "n < 62"
    | (minus) "n = 62" | (underscore) "n = 63"
    using assms by linarith
  then show ?thesis
  proof cases
    case upper
    then have "low_byte (sextet_char n) = low_byte (of_nat (65 + n))"
      by (simp only: sextet_char_def if_True)
    also have "\<dots> = 65 + n" using upper by (intro low_byte_of_nat) simp
    finally show ?thesis using upper by simp
  next
    case lower
    then have "\<not> n < 26" by simp
    with lower have "low_byte (sextet_char n) = low_byte (of_nat (97 + (n - 26)))"
      by (simp only: sextet_char_def if_True if_False)
    also have "\<dots> = 97 + (n - 26)" using lower by (intro low_byte_of_nat) simp
    finally show ?thesis using lower by simp
  next
    case digit
    then have "\<not> n < 26" "\<not> n < 52" by simp_all
    with digit have "low_byte (sextet_char n) = low_byte (of_nat (48 + (n - 52)))"
      by (simp only: sextet_char_def if_True if_False)
    also have "\<dots> = 48 + (n - 52)" using digit by (intro low_byte_of_nat) simp
    finally show ?thesis using digit by simp
  next
    case minus
    then show ?thesis by (simp add: sextet_char_def low_byte_def)
  next
    case underscore
    then show ?thesis by (simp add: sextet_char_def low_byte_def)
  qed
qed

lemma unbase64_sextet_char: "n < 64 \<Longrightarrow> unbase64 (sextet_char n) = Some n"
  by (auto simp: unbase64_def low_byte_sextet_char Let_def)

lemma sextet_char_not_pad: "n < 64 \<Longrightarrow> \<not> is_pad (sextet_char n)"
  by (auto simp: is_pad_def low_byte_sextet_char)

lemma sextets_of_chars:
  "\<forall>s \<in> set ss. s < 64 \<Longrightarrow>
     map the (filter (\<lambda>v. v \<noteq> None)
       (map unbase64 (takeWhile (\<lambda>c. \<not> is_pad c) (map sextet_char ss)))) = ss"
  by (induction ss) (simp_all add: unbase64_sextet_char sextet_char_not_pad)

lemma from_base64url_toString: "from_base64url (toString_base64url buf) = buf"
proof -
  have small: "\<forall>b \<in> set (map of_char buf :: nat list). b < 256" by simp
  have "from_base64url (toString_base64url buf)
          = map char_of (bytes_of_sextets (sextets_of_bytes (map of_char buf :: nat list)))"
    unfolding from_base64url_def toString_base64url_def
    using sextets_of_chars [OF sextets_of_bytes_bound [OF small]] by simp
  also have "\<dots> = map char_of (map of_char buf :: nat list)"
    using bytes_of_sextets_inverse [OF small] by simp
  also have "\<dots> = buf" by (simp add: comp_def)
  finally show ?thesis .
qed

lemma toString_base64url_in_alphabet: "set (toString_base64url buf) \<subseteq> base64url_alphabet"
proof -
  have small: "\<forall>b \<in> set (map of_char buf :: nat list). b < 256" by simp
  show ?thesis
    unfolding toString_base64url_def base64url_alphabet_def
    using sextets_of_bytes_bound [OF small] by auto
qed

lemma toString_base64url_Nil_iff: "toString_base64url buf = [] \<longleftrightarrow> buf = []"
  unfolding toString_base64url_def
  by (cases "map of_char buf :: nat list" rule: sextets_of_bytes.cases) auto

lemma unbase64_in_alphabet: "c \<in> base64url_alphabet \<Longrightarrow> unbase64 c \<noteq> None"
  by (auto simp: base64url_alphabet_def unbase64_sextet_char)

lemma dot_not_in_alphabet: "of_char CHR ''.'' \<notin> base64url_alphabet"
proof
  assume "of_char CHR ''.'' \<in> base64url_alphabet"
  then have "unbase64 (of_char CHR ''.'') \<noteq> None" by (rule unbase64_in_alphabet)
  then show False by (simp add: unbase64_def low_byte_def Let_def)
qed

section \<open>Splitting what was joined\<close>

lemma js_split_from_plain:
  "sep \<noteq> [] \<Longrightarrow> hd sep \<notin> set a \<Longrightarrow> js_split_from sep cur a = [rev cur @ a]"
proof (induction a arbitrary: cur)
  case Nil
  then show ?case by simp
next
  case (Cons c cs)
  have "take (length sep) (c # cs) \<noteq> sep"
  proof
    assume "take (length sep) (c # cs) = sep"
    then have "hd sep = c" using Cons.prems(1) by (cases sep) auto
    with Cons.prems(2) show False by simp
  qed
  with Cons show ?case by simp
qed

lemma js_split_from_append:
  "sep \<noteq> [] \<Longrightarrow> hd sep \<notin> set a \<Longrightarrow>
     js_split_from sep cur (a @ sep @ rest) = (rev cur @ a) # js_split_from sep [] rest"
proof (induction a arbitrary: cur)
  case Nil
  then obtain c cs where "sep = c # cs" by (cases sep) auto
  then show ?case by simp
next
  case (Cons c cs)
  have "take (length sep) (c # cs @ sep @ rest) \<noteq> sep"
  proof
    assume "take (length sep) (c # cs @ sep @ rest) = sep"
    then have "hd sep = c" using Cons.prems(1) by (cases sep) auto
    with Cons.prems(2) show False by simp
  qed
  with Cons show ?case by simp
qed

lemma js_split_two_segments:
  assumes "sep \<noteq> []" "set sep \<inter> base64url_alphabet = {}"
  shows "js_split sep (toString_base64url a @ sep @ toString_base64url b)
           = [toString_base64url a, toString_base64url b]"
proof -
  have h: "hd sep \<notin> set (toString_base64url x)" for x
    using assms toString_base64url_in_alphabet [of x] by (cases sep) auto
  show ?thesis
    using assms(1) js_split_from_append [OF assms(1) h, of "[]" a "toString_base64url b"]
      js_split_from_plain [OF assms(1) h, of "[]" b]
    by (simp add: js_split_def)
qed

lemma js_split_three_segments:
  assumes "sep \<noteq> []" "set sep \<inter> base64url_alphabet = {}"
  shows "js_split sep
           (toString_base64url a @ sep @ toString_base64url b @ sep @ toString_base64url c)
           = [toString_base64url a, toString_base64url b, toString_base64url c]"
proof -
  have h: "hd sep \<notin> set (toString_base64url x)" for x
    using assms toString_base64url_in_alphabet [of x] by (cases sep) auto
  show ?thesis
    using assms(1)
      js_split_from_append [OF assms(1) h, of "[]" a
        "toString_base64url b @ sep @ toString_base64url c"]
      js_split_from_append [OF assms(1) h, of "[]" b "toString_base64url c"]
      js_split_from_plain [OF assms(1) h, of "[]" c]
    by (simp add: js_split_def)
qed

lemma demo_randomBytes_16:
  "demo_randomBytes 16 =
     [CHR 0x00, CHR 0x00, CHR 0x00, CHR 0x00, CHR 0x00, CHR 0x00, CHR 0x00, CHR 0x00,
      CHR 0x00, CHR 0x00, CHR 0x00, CHR 0x00, CHR 0x00, CHR 0x00, CHR 0x00, CHR 0x00]"
  by (simp add: demo_randomBytes_def numeral_eq_Suc)

lemma demo_aead_supported: "supported (demo_suite demo_aead)"
  using dot_not_in_alphabet
  by (simp add: supported_def demo_suite_def demo_aead_def DEFAULT_OPTIONS_def demo_tag_def js_def)

lemma demo_stream_supported: "supported (demo_suite demo_stream)"
  using dot_not_in_alphabet
  by (simp add: supported_def demo_suite_def demo_stream_def DEFAULT_OPTIONS_def js_def)



section \<open>CryptoSuite: decrypt inverts encrypt\<close>

lemmas crypto_run_defs =
  CryptoSuite_encrypt_def CryptoSuite_decrypt_def CryptoSuite_split_def CryptoSuite_combine_def
  DEFAULT_OPTIONS_def js_split_def toString_base64url_def from_base64url_def sextet_char_def
  unbase64_def low_byte_def is_pad_def js_def char_of_def bit_Suc_0_iff
  Buffer_from_utf8_def code_point_of_unit_def is_high_surrogate_def is_low_surrogate_def
  utf8_of_code_point_def toString_utf8_def utf8_decode_ascii utf8_decode_three
  utf16_of_code_point_def demo_suite_def demo_aead_def demo_stream_def
  demo_tag_def demo_randomBytes_16 Let_def

text \<open>
  What \<open>decrypt\<close> makes of what \<open>encrypt\<close> returned, for any plaintext: the plaintext as
  its bytes in utf8 read it.
\<close>

lemma decrypt_of_encrypt:
  assumes sup: "supported cs"
    and enc: "encipher (algorithm cs) (key cs) (rnd (ivLength (options cs))) (Buffer_from_utf8 x)
                = Some (ct, tag)"
  shows "(let combined =
                toString_base64url (rnd (ivLength (options cs))) @ separator (options cs)
                @ toString_base64url ct
                @ (case tag of None \<Rightarrow> [] | Some t \<Rightarrow> separator (options cs) @ toString_base64url t)
          in CryptoSuite_encrypt cs rnd x = Inr combined
             \<and> CryptoSuite_decrypt cs combined = Inr (toString_utf8 (Buffer_from_utf8 x)))"
proof -
  let ?sep = "separator (options cs)"
  let ?iv = "rnd (ivLength (options cs))"
  let ?out = "toString_base64url ?iv @ ?sep @ toString_base64url ct
                @ (case tag of None \<Rightarrow> [] | Some t \<Rightarrow> ?sep @ toString_base64url t)"
  from sup enc have sep: "?sep \<noteq> []" "set ?sep \<inter> base64url_alphabet = {}"
    and tag: "tag \<noteq> Some []"
    and dec: "decipher (algorithm cs) (key cs) ?iv tag ct = Some (Buffer_from_utf8 x)"
    by (auto simp: supported_def)
  have fmt: "CryptoSuite_encrypt cs rnd x = Inr ?out"
    using enc by (simp add: CryptoSuite_encrypt_def CryptoSuite_combine_def split: option.splits)
  have "CryptoSuite_decrypt cs ?out = Inr (toString_utf8 (Buffer_from_utf8 x))"
  proof (cases tag)
    case None
    then show ?thesis
      using dec js_split_two_segments [OF sep, of ?iv ct]
      by (simp add: CryptoSuite_decrypt_def CryptoSuite_split_def from_base64url_toString)
  next
    case (Some t)
    with tag have "t \<noteq> []" by simp
    then have "toString_base64url t \<noteq> []" by (simp add: toString_base64url_Nil_iff)
    then show ?thesis
      using Some dec js_split_three_segments [OF sep, of ?iv ct t]
      by (simp add: CryptoSuite_decrypt_def CryptoSuite_split_def from_base64url_toString)
  qed
  with fmt show ?thesis by (simp add: Let_def)
qed

text \<open>
  C2, amended. For every plaintext \<open>x\<close> that has no unpaired surrogate, every source of
  random bytes and every supported configuration, whenever the cipher enciphers the bytes
  of \<open>x\<close> (to a ciphertext \<open>ct\<close> and a tag, if the mode has one), \<open>encrypt\<close> returns
  \<open>base64url(iv) + separator + base64url(ct)\<close>, followed by \<open>separator + base64url(tag)\<close>
  when there is a tag, and \<open>decrypt\<close> of what \<open>encrypt\<close> returned is \<open>x\<close>.
\<close>

theorem decrypt_encrypt:
  assumes sup: "supported cs"
    and wf: "isWellFormed x"
    and enc: "encipher (algorithm cs) (key cs) (rnd (ivLength (options cs))) (Buffer_from_utf8 x)
                = Some (ct, tag)"
  shows "(let combined =
                toString_base64url (rnd (ivLength (options cs))) @ separator (options cs)
                @ toString_base64url ct
                @ (case tag of None \<Rightarrow> [] | Some t \<Rightarrow> separator (options cs) @ toString_base64url t)
          in CryptoSuite_encrypt cs rnd x = Inr combined
             \<and> CryptoSuite_decrypt cs combined = Inr x)"
  using decrypt_of_encrypt [where cs = cs and rnd = rnd, OF sup enc] utf8_lossless [OF wf]
  by simp

theorem decrypt_encrypt_witness:
  "supported (demo_suite demo_aead)
   \<and> isWellFormed (js ''hi'')
   \<and> CryptoSuite_encrypt (demo_suite demo_aead) demo_randomBytes (js ''hi'')
       = Inr (js ''AAAAAAAAAAAAAAAAAAAAAA.aWg.awAAAAAAAAAAAAAAAAAAAABoaQ'')
   \<and> CryptoSuite_decrypt (demo_suite demo_aead)
        (js ''AAAAAAAAAAAAAAAAAAAAAA.aWg.awAAAAAAAAAAAAAAAAAAAABoaQ'') = Inr (js ''hi'')"
proof -
  have wf: "isWellFormed (js ''hi'')"
    by (simp add: js_def is_high_surrogate_def is_low_surrogate_def)
  have bytes: "Buffer_from_utf8 (js ''hi'') = ''hi''"
    by (simp add: crypto_run_defs)
  have enc: "encipher (algorithm (demo_suite demo_aead)) (key (demo_suite demo_aead))
               (demo_randomBytes (ivLength (options (demo_suite demo_aead))))
               (Buffer_from_utf8 (js ''hi''))
             = Some (''ih'', Some (demo_tag ''k'' (demo_randomBytes 16) ''hi''))"
    by (simp add: bytes demo_suite_def demo_aead_def DEFAULT_OPTIONS_def)
  have out: "toString_base64url (demo_randomBytes 16) @ js ''.'' @ toString_base64url ''ih''
               @ js ''.'' @ toString_base64url (demo_tag ''k'' (demo_randomBytes 16) ''hi'')
             = js ''AAAAAAAAAAAAAAAAAAAAAA.aWg.awAAAAAAAAAAAAAAAAAAAABoaQ''"
    by (simp add: toString_base64url_def sextet_char_def char_of_def bit_Suc_0_iff
        demo_randomBytes_16 demo_tag_def js_def)
  show ?thesis
    using decrypt_encrypt [where cs = "demo_suite demo_aead" and rnd = demo_randomBytes,
        OF demo_aead_supported wf enc] out demo_aead_supported wf
    by (simp add: demo_suite_def DEFAULT_OPTIONS_def Let_def)
qed

text \<open>
  C2 as stated fails: a plaintext that is one unpaired surrogate is enciphered as the bytes
  of U+FFFD, and what \<open>decrypt\<close> returns for the string that \<open>encrypt\<close> returned is
  U+FFFD, not the plaintext.
\<close>

theorem decrypt_encrypt_unpaired_surrogate:
  "supported (demo_suite demo_aead)
   \<and> CryptoSuite_encrypt (demo_suite demo_aead) demo_randomBytes [0xD800]
       = Inr (js ''AAAAAAAAAAAAAAAAAAAAAA.vb_v.awAAAAAAAAAAAAAAAAAAAADvv70'')
   \<and> CryptoSuite_decrypt (demo_suite demo_aead)
        (js ''AAAAAAAAAAAAAAAAAAAAAA.vb_v.awAAAAAAAAAAAAAAAAAAAADvv70'') = Inr [0xFFFD]"
proof -
  have "CryptoSuite_encrypt (demo_suite demo_aead) demo_randomBytes [0xD800]
       = Inr (js ''AAAAAAAAAAAAAAAAAAAAAA.vb_v.awAAAAAAAAAAAAAAAAAAAADvv70'')"
    by (simp add: crypto_run_defs)
  moreover have "CryptoSuite_decrypt (demo_suite demo_aead)
        (js ''AAAAAAAAAAAAAAAAAAAAAA.vb_v.awAAAAAAAAAAAAAAAAAAAADvv70'') = Inr [0xFFFD]"
    by (simp add: crypto_run_defs)
  ultimately show ?thesis using demo_aead_supported by simp
qed


section \<open>CryptoSuite: what decrypt accepts\<close>






text \<open>
  \<open>decrypt\<close> sees a combined string only through its segments, and the decoder drops the
  bits of a segment's last character that do not fill a byte: the two strings below differ
  in one character and are the same to \<open>decrypt\<close>, whatever the cipher and the key.
\<close>

lemma decrypt_by_segments:
  "CryptoSuite_split cs a = CryptoSuite_split cs b \<Longrightarrow>
     CryptoSuite_decrypt cs a = CryptoSuite_decrypt cs b"
  by (simp add: CryptoSuite_decrypt_def)

lemma altered_string_same_segments:
  "CryptoSuite_split \<lparr>algorithm = alg, key = k, options = DEFAULT_OPTIONS\<rparr>
       (js ''AAAAAAAAAAAAAAAAAAAAAB.aWg.awAAAAAAAAAAAAAAAAAAAABoaQ'')
   = CryptoSuite_split \<lparr>algorithm = alg, key = k, options = DEFAULT_OPTIONS\<rparr>
       (js ''AAAAAAAAAAAAAAAAAAAAAA.aWg.awAAAAAAAAAAAAAAAAAAAABoaQ'')"
  by (simp add: CryptoSuite_split_def DEFAULT_OPTIONS_def js_split_def from_base64url_def
      unbase64_def low_byte_def is_pad_def js_def char_of_def bit_Suc_0_iff Let_def)

lemma altered_string_any_cipher:
  "CryptoSuite_decrypt \<lparr>algorithm = alg, key = k, options = DEFAULT_OPTIONS\<rparr>
       (js ''AAAAAAAAAAAAAAAAAAAAAB.aWg.awAAAAAAAAAAAAAAAAAAAABoaQ'')
   = CryptoSuite_decrypt \<lparr>algorithm = alg, key = k, options = DEFAULT_OPTIONS\<rparr>
       (js ''AAAAAAAAAAAAAAAAAAAAAA.aWg.awAAAAAAAAAAAAAAAAAAAABoaQ'')"
  by (rule decrypt_by_segments) (rule altered_string_same_segments)



section \<open>Sequencing, and what the steps leave alone\<close>

lemma andThen_Inl: "m s = (Inl e, s') \<Longrightarrow> andThen m f s = (Inl e, s')"
  by (simp add: andThen_def)

lemma andThen_Inr: "m s = (Inr x, s') \<Longrightarrow> andThen m f s = f x s'"
  by (simp add: andThen_def)

lemma andThen_lift: "andThen (lift r) f s = (case r of Inl e \<Rightarrow> (Inl e, s) | Inr x \<Rightarrow> f x s)"
  by (simp add: andThen_def lift_def split: sum.splits)

lemma getRealmConfig_cached: "cachedConfig s = Some c \<Longrightarrow> getRealmConfig P s = (Inr c, s)"
  by (simp add: getRealmConfig_def)

lemma getRealmConfig_cookies: "cookies (snd (getRealmConfig P s)) = cookies s"
  by (simp add: getRealmConfig_def andThen_def lift_def await_fetch_def response_json_def
      split: option.splits sum.splits prod.splits)

lemma andThen_cookies:
  assumes "\<And>x s'. cookies (snd (f x s')) = cookies s'"
  shows "cookies (snd (andThen m f s)) = cookies (snd (m s))"
  using assms by (simp add: andThen_def split: prod.splits sum.splits)

lemma lift_cookies: "cookies (snd (lift r s)) = cookies s"
  by (simp add: lift_def)

lemmas run_defs =
  completeLoginFlow_def refresh_def getAccessToken_def logout_def startLoginFlow_def
  isLoggedIn_def getExpirations_def decoded_expiry_def handleLoginFlow_def generateRandomState_def
  createAuthorizationCodeRequest_def createRefreshTokenRequest_def getRealmConfig_def
  deleteTokens_def await_fetch_def response_json_def new_URL_def andThen_def lift_def truthy_def
  accessToken_def refreshToken_def authState_def jwtDecode_def
  AuthStateCookie_value_def AuthStateCookie_set_def AccessTokenCookie_value_def
  AccessTokenCookie_set_def AccessTokenCookie_delete_def RefreshTokenCookie_value_def
  RefreshTokenCookie_set_def RefreshTokenCookie_delete_def RefreshTokenCookie_crypto_def
  Cookie_value_def Cookie_set_def Cookie_delete_def getExpiry_def json_truthy_def
  isExpiredSession_def isRealmConfig_def isTokens_def ok_def typeof_object_def member_def
  has_key_def typeof_string_def string_member_def searchParams_set_def
  CryptoSuite_encrypt_def CryptoSuite_decrypt_def CryptoSuite_split_def CryptoSuite_combine_def
  DEFAULT_OPTIONS_def js_split_def toString_base64url_def from_base64url_def sextet_char_def
  unbase64_def low_byte_def is_pad_def js_def char_of_def bit_Suc_0_iff
  Buffer_from_utf8_def code_point_of_unit_def is_high_surrogate_def is_low_surrogate_def
  utf8_of_code_point_def toString_utf8_def utf8_decode_ascii utf16_of_code_point_def
  new_OIDC_def demo_platform_def demo_config_def demo_JSON_parse_def demo_URL_def demo_cookie_def
  token_response_def demo_stream_def demo_aead_def demo_tag_def demo_randomBytes_16
  is_refresh_grant_def Let_def

section \<open>logout\<close>

text \<open>
  C6. Whatever \<open>logout\<close> returns, the end-session URL or an error of the configuration
  fetch or of the URL construction, the jar it leaves is the one it found with the
  access-token and the refresh-token cookie deleted: the deletion comes first.
\<close>

theorem logout_deletes_tokens:
  "cookies (snd (logout P s)) = (cookies s)(''access-token'' := None, ''refresh-token'' := None)"
proof -
  have "cookies (snd (logout P s)) = cookies (snd (getRealmConfig P (deleteTokens s)))"
    unfolding logout_def by (intro andThen_cookies) (simp_all add: andThen_lift lift_def split: sum.splits)
  also have "\<dots> = cookies (deleteTokens s)" by (rule getRealmConfig_cookies)
  also have "\<dots> = (cookies s)(''access-token'' := None, ''refresh-token'' := None)"
    by (simp add: deleteTokens_def RefreshTokenCookie_delete_def AccessTokenCookie_delete_def Cookie_delete_def)
  finally show ?thesis .
qed

theorem logout_deletes_tokens_witness:
  "fst (logout (demo_platform demo_stream None None)
          (new_OIDC [''access-token'' \<mapsto> demo_cookie (js ''h.a.s''),
                     ''refresh-token'' \<mapsto> demo_cookie (js ''AAAAAAAAAAAAAAAAAAAAAA.cy5yLmg'')]))
     = Inl NetworkError
   \<and> cookies (snd (logout (demo_platform demo_stream None None)
          (new_OIDC [''access-token'' \<mapsto> demo_cookie (js ''h.a.s''),
                     ''refresh-token'' \<mapsto> demo_cookie (js ''AAAAAAAAAAAAAAAAAAAAAA.cy5yLmg'')])))
     = Map.empty"
proof -
  let ?P = "demo_platform demo_stream None None"
  let ?s = "new_OIDC [''access-token'' \<mapsto> demo_cookie (js ''h.a.s''),
                     ''refresh-token'' \<mapsto> demo_cookie (js ''AAAAAAAAAAAAAAAAAAAAAA.cy5yLmg'')]"
  have "fst (logout ?P ?s) = Inl NetworkError"
    by (simp add: run_defs)
  moreover have "cookies (snd (logout ?P ?s)) = Map.empty"
    using logout_deletes_tokens [of ?P ?s] by (simp add: new_OIDC_def fun_eq_iff)
  ultimately show ?thesis by simp
qed

section \<open>refresh\<close>

lemma refreshToken_truthy_state: "truthy (fst (refreshToken P s)) \<Longrightarrow> snd (refreshToken P s) = s"
  by (auto simp: refreshToken_def RefreshTokenCookie_value_def truthy_def
      split: option.splits sum.splits if_splits)

lemma refreshToken_cookies [simp]: "cookies (snd (refreshToken P s)) = cookies s"
  by (simp add: refreshToken_def RefreshTokenCookie_value_def split: option.splits sum.splits)

lemma refreshToken_requests [simp]: "requests (snd (refreshToken P s)) = requests s"
  by (simp add: refreshToken_def RefreshTokenCookie_value_def split: option.splits sum.splits)

lemma getRealmConfig_draws: "draws (snd (getRealmConfig P s)) = draws s"
  by (simp add: getRealmConfig_def andThen_def lift_def await_fetch_def response_json_def
      split: option.splits sum.splits prod.splits)

lemma createRefreshTokenRequest_cookies:
  "cookies (snd (createRefreshTokenRequest P t s)) = cookies s"
proof -
  have "cookies (snd (createRefreshTokenRequest P t s)) = cookies (snd (getRealmConfig P s))"
    unfolding createRefreshTokenRequest_def
    by (intro andThen_cookies) (simp_all add: andThen_lift lift_def split: sum.splits)
  then show ?thesis by (simp add: getRealmConfig_cookies)
qed

lemma andThen_draws:
  assumes "\<And>x s'. draws (snd (f x s')) = draws s'"
  shows "draws (snd (andThen m f s)) = draws (snd (m s))"
  using assms by (simp add: andThen_def split: prod.splits sum.splits)

lemma createRefreshTokenRequest_draws:
  "draws (snd (createRefreshTokenRequest P t s)) = draws s"
proof -
  have "draws (snd (createRefreshTokenRequest P t s)) = draws (snd (getRealmConfig P s))"
    unfolding createRefreshTokenRequest_def
    by (intro andThen_draws) (simp_all add: andThen_lift lift_def split: sum.splits)
  then show ?thesis by (simp add: getRealmConfig_draws)
qed

lemma refresh_without_token:
  "\<not> truthy (fst (refreshToken P s)) \<Longrightarrow> refresh P s = (Inr (), snd (refreshToken P s))"
  by (cases "refreshToken P s") (simp add: refresh_def)

text \<open>What refresh does with the answer of the token endpoint.\<close>

lemma refresh_with_answer:
  assumes rt: "fst (refreshToken P s) = Some t" "t \<noteq> []"
    and req: "createRefreshTokenRequest P t s = (Inr req, s1)"
    and resp: "fetch P (requests s1) req = Some resp" "body resp = Some data"
  shows "refresh P s =
     (let s3 = s1\<lparr>requests := requests s1 @ [req],
                  console := console s1 @ [Logged_response resp, Logged_data data]\<rparr> in
      if isExpiredSession resp data then (Inr (), deleteTokens s3)
      else if \<not> ok resp \<or> \<not> isTokens data then (Inl RefreshFailed, s3)
      else andThen (AccessTokenCookie_set P (string_member data (js ''access_token''))) (\<lambda>_.
             RefreshTokenCookie_set P (string_member data (js ''refresh_token''))) s3)"
proof -
  from rt have tr: "truthy (fst (refreshToken P s))" by (simp add: truthy_def)
  then have st: "refreshToken P s = (Some t, s)"
    using rt refreshToken_truthy_state [OF tr] by (cases "refreshToken P s") simp
  show ?thesis
    using tr st req resp
    by (simp add: refresh_def andThen_def await_fetch_def lift_def response_json_def Let_def)
qed

lemma getExpiry_null: "getExpiry JNull = Inl TypeError"
  by (simp add: getExpiry_def)

lemma getExpiry_Inr_iff: "(\<exists>expiry. getExpiry jwt = Inr expiry) \<longleftrightarrow> jwt \<noteq> JNull"
  by (simp add: getExpiry_def split: option.splits)

lemma getExpiry_Inl: "getExpiry jwt = Inl e \<Longrightarrow> jwt = JNull \<and> e = TypeError"
  by (simp add: getExpiry_def split: option.splits if_splits)

lemma AccessTokenCookie_set_Some:
  "jwtDecode P v = Some jwt \<Longrightarrow> getExpiry jwt = Inr expiry \<Longrightarrow>
     AccessTokenCookie_set P v s = (Inr (), Cookie_set ''access-token'' v expiry s)"
  by (simp add: AccessTokenCookie_set_def)

lemma AccessTokenCookie_set_None:
  "jwtDecode P v = None \<Longrightarrow> AccessTokenCookie_set P v s = (Inl InvalidTokenError, s)"
  by (simp add: AccessTokenCookie_set_def)

lemma AccessTokenCookie_set_null:
  "jwtDecode P v = Some JNull \<Longrightarrow> AccessTokenCookie_set P v s = (Inl TypeError, s)"
  by (simp add: AccessTokenCookie_set_def getExpiry_null)

lemma RefreshTokenCookie_set_None:
  "jwtDecode P v = None \<Longrightarrow> RefreshTokenCookie_set P v s = (Inl InvalidTokenError, s)"
  by (simp add: RefreshTokenCookie_set_def)

lemma RefreshTokenCookie_set_Some:
  "jwtDecode P v = Some jwt \<Longrightarrow> getExpiry jwt = Inr expiry \<Longrightarrow>
   CryptoSuite_encrypt (RefreshTokenCookie_crypto P) (randomBytes P (draws s)) v = Inr c \<Longrightarrow>
     RefreshTokenCookie_set P v s
       = (Inr (), Cookie_set ''refresh-token'' c expiry (s\<lparr>draws := draws s + 1\<rparr>))"
  by (simp add: RefreshTokenCookie_set_def)

lemma cookies_deleteTokens:
  "cookies (deleteTokens s) = (cookies s)(''access-token'' := None, ''refresh-token'' := None)"
  by (simp add: deleteTokens_def RefreshTokenCookie_delete_def AccessTokenCookie_delete_def
      Cookie_delete_def)

lemma cookies_Cookie_set:
  "cookies (Cookie_set name v e s) = (cookies s)(name \<mapsto>
      \<lparr>cookie_value = v, sameSite = ''lax'', httpOnly = True, secure = True, path = ''/'',
       expires = e\<rparr>)"
  by (simp add: Cookie_set_def)





section \<open>completeLoginFlow\<close>

lemma andThen_no_error:
  assumes "fst (m s) \<noteq> Inl E" and "\<And>x s'. fst (f x s') \<noteq> Inl E"
  shows "fst (andThen m f s) \<noteq> Inl E"
  using assms by (auto simp: andThen_def split: prod.splits sum.splits)

lemma getRealmConfig_no_StateMismatch: "fst (getRealmConfig P s) \<noteq> Inl StateMismatch"
  by (simp add: getRealmConfig_def andThen_def lift_def await_fetch_def response_json_def
      split: option.splits sum.splits prod.splits)

lemma new_URL_no_StateMismatch: "new_URL P v \<noteq> Inl StateMismatch"
  by (simp add: new_URL_def split: option.splits json.splits)

lemma createAuthorizationCodeRequest_no_StateMismatch:
  "fst (createAuthorizationCodeRequest P code s) \<noteq> Inl StateMismatch"
  unfolding createAuthorizationCodeRequest_def
  by (intro andThen_no_error getRealmConfig_no_StateMismatch)
     (simp_all add: lift_def new_URL_no_StateMismatch)

lemma await_fetch_no_StateMismatch: "fst (await_fetch P req s) \<noteq> Inl StateMismatch"
  by (simp add: await_fetch_def split: option.splits)

lemma AccessTokenCookie_set_no_StateMismatch: "fst (AccessTokenCookie_set P v s) \<noteq> Inl StateMismatch"
  by (auto simp: AccessTokenCookie_set_def split: option.splits sum.splits dest: getExpiry_Inl)

lemma CryptoSuite_encrypt_error: "CryptoSuite_encrypt cs rnd x = Inl e \<Longrightarrow> e = CipherFailure"
  by (auto simp: CryptoSuite_encrypt_def Let_def split: option.splits prod.splits)

lemma RefreshTokenCookie_set_no_StateMismatch: "fst (RefreshTokenCookie_set P v s) \<noteq> Inl StateMismatch"
  by (auto simp: RefreshTokenCookie_set_def Let_def split: option.splits sum.splits
      dest: CryptoSuite_encrypt_error getExpiry_Inl)

lemma response_json_no_StateMismatch: "response_json r \<noteq> Inl StateMismatch"
  by (simp add: response_json_def split: option.splits)

lemma store_tokens_no_StateMismatch:
  "fst ((if \<not> ok response \<or> \<not> isTokens data then (Inl TokenExchangeFailed, s')
      else andThen (AccessTokenCookie_set P a) (\<lambda>_.
           andThen (RefreshTokenCookie_set P r) (\<lambda>_. lift (Inr x))) s')) \<noteq> Inl StateMismatch"
proof (cases "\<not> ok response \<or> \<not> isTokens data")
  case True
  then show ?thesis by simp
next
  case False
  have "fst (andThen (AccessTokenCookie_set P a) (\<lambda>_.
           andThen (RefreshTokenCookie_set P r) (\<lambda>_. lift (Inr x))) s') \<noteq> Inl StateMismatch"
    by (intro andThen_no_error AccessTokenCookie_set_no_StateMismatch
        RefreshTokenCookie_set_no_StateMismatch) (simp add: lift_def)
  with False show ?thesis by simp
qed

lemma completeLoginFlow_proceeds:
  assumes "state \<noteq> None" "state = authState s"
  shows "fst (completeLoginFlow P state code s) \<noteq> Inl StateMismatch"
proof -
  have "completeLoginFlow P state code s =
        andThen (createAuthorizationCodeRequest P code) (\<lambda>request.
        andThen (await_fetch P request) (\<lambda>response.
        andThen (lift (response_json response)) (\<lambda>data s'.
          if \<not> ok response \<or> \<not> isTokens data then (Inl TokenExchangeFailed, s')
          else
            andThen (AccessTokenCookie_set P (string_member data (js ''access_token''))) (\<lambda>_.
            andThen (RefreshTokenCookie_set P (string_member data (js ''refresh_token''))) (\<lambda>_.
              lift (Inr (js ''/'')))) s'))) s"
  proof -
    from assms have "\<not> (state = None \<or> state \<noteq> authState s)" by simp
    then show ?thesis by (simp only: completeLoginFlow_def if_False)
  qed
  also have "fst \<dots> \<noteq> Inl StateMismatch"
    by (intro andThen_no_error createAuthorizationCodeRequest_no_StateMismatch
        await_fetch_no_StateMismatch store_tokens_no_StateMismatch)
       (simp_all add: lift_def response_json_no_StateMismatch)
  finally show ?thesis .
qed

lemma requests_Cookie_set [simp]: "requests (Cookie_set n v e s) = requests s"
  by (simp add: Cookie_set_def)

lemma AccessTokenCookie_set_requests [simp]:
  "requests (snd (AccessTokenCookie_set P v s)) = requests s"
  by (simp add: AccessTokenCookie_set_def split: option.splits sum.splits)

lemma RefreshTokenCookie_set_requests [simp]:
  "requests (snd (RefreshTokenCookie_set P v s)) = requests s"
  by (simp add: RefreshTokenCookie_set_def Let_def split: option.splits sum.splits)

lemma andThen_requests:
  assumes "\<And>x s'. requests (snd (f x s')) = requests s'"
  shows "requests (snd (andThen m f s)) = requests (snd (m s))"
  using assms by (simp add: andThen_def split: prod.splits sum.splits)

lemma store_tokens_requests:
  "requests (snd (andThen (AccessTokenCookie_set P a) (\<lambda>_.
       andThen (RefreshTokenCookie_set P r) (\<lambda>_. lift (Inr x))) s)) = requests s"
proof -
  have "requests (snd (andThen (RefreshTokenCookie_set P r) (\<lambda>_. lift (Inr x)) s')) = requests s'"
    for s'
    by (simp add: andThen_requests lift_def)
  then show ?thesis by (simp add: andThen_requests)
qed

lemma completeLoginFlow_exchange:
  assumes "state \<noteq> None" "state = authState s"
    and "createAuthorizationCodeRequest P code s = (Inr req, s1)"
  shows "requests (snd (completeLoginFlow P state code s)) = requests s1 @ [req]"
proof -
  from assms have n: "\<not> (state = None \<or> state \<noteq> authState s)" by simp
  have "requests (snd (completeLoginFlow P state code s))
        = requests (snd (andThen (await_fetch P req) (\<lambda>response.
        andThen (lift (response_json response)) (\<lambda>data s'.
          if \<not> ok response \<or> \<not> isTokens data then (Inl TokenExchangeFailed, s')
          else
            andThen (AccessTokenCookie_set P (string_member data (js ''access_token''))) (\<lambda>_.
            andThen (RefreshTokenCookie_set P (string_member data (js ''refresh_token''))) (\<lambda>_.
              lift (Inr (js ''/'')))) s')) s1))"
    using assms(3) by (simp only: completeLoginFlow_def n if_False andThen_Inr)
  also have "\<dots> = requests (snd (await_fetch P req s1))"
    by (intro andThen_requests) (simp add: andThen_lift store_tokens_requests split: sum.splits)
  also have "\<dots> = requests s1 @ [req]" by (simp add: await_fetch_def)
  finally show ?thesis .
qed

text \<open>
  C5, amended. \<open>completeLoginFlow(state, code)\<close> fails with \<open>StateMismatch\<close>, leaving the
  state as it was, whenever \<open>state\<close> is \<open>null\<close> or differs from the stored CSRF cookie value
  (in particular when no CSRF cookie is stored). When \<open>state\<close> equals the stored value, the
  empty string included, it does not fail with \<open>StateMismatch\<close> and goes on to the code
  exchange: once the authorization-code request is built, it is sent.
\<close>

theorem completeLoginFlow_state_check:
  "(state = None \<or> state \<noteq> authState s \<longrightarrow>
      completeLoginFlow P state code s = (Inl StateMismatch, s))
   \<and> (state \<noteq> None \<and> state = authState s \<longrightarrow>
        fst (completeLoginFlow P state code s) \<noteq> Inl StateMismatch
        \<and> (createAuthorizationCodeRequest P code s = (Inr req, s1) \<longrightarrow>
             requests (snd (completeLoginFlow P state code s)) = requests s1 @ [req]))"
  using completeLoginFlow_proceeds [of state s P code]
    completeLoginFlow_exchange [of state s P code req s1]
  by (auto simp: completeLoginFlow_def)

theorem completeLoginFlow_state_check_witness:
  "authState (new_OIDC (awaiting_jar (js ''42''))) = Some (js ''42'')
   \<and> completeLoginFlow (demo_platform demo_stream discovery_ok (Some (token_response (js ''h.a.s'') (js ''h.r.s''))))
        (Some (js ''41'')) (js ''code'') (new_OIDC (awaiting_jar (js ''42'')))
       = (Inl StateMismatch, new_OIDC (awaiting_jar (js ''42'')))
   \<and> completeLoginFlow (demo_platform demo_stream discovery_ok (Some (token_response (js ''h.a.s'') (js ''h.r.s''))))
        None (js ''code'') (new_OIDC (awaiting_jar (js ''42'')))
       = (Inl StateMismatch, new_OIDC (awaiting_jar (js ''42'')))
   \<and> fst (completeLoginFlow (demo_platform demo_stream discovery_ok (Some (token_response (js ''h.a.s'') (js ''h.r.s''))))
        (Some (js ''42'')) (js ''code'') (new_OIDC (awaiting_jar (js ''42'')))) \<noteq> Inl StateMismatch"
proof -
  let ?P = "demo_platform demo_stream discovery_ok (Some (token_response (js ''h.a.s'') (js ''h.r.s'')))"
  let ?s = "new_OIDC (awaiting_jar (js ''42''))"
  have a: "authState ?s = Some (js ''42'')"
    by (simp add: authState_def AuthStateCookie_value_def Cookie_value_def new_OIDC_def
        awaiting_jar_def demo_cookie_def)
  have d: "js ''41'' \<noteq> js ''42''" by (simp add: js_def)
  show ?thesis
    using a d completeLoginFlow_state_check [of "Some (js ''41'')" ?s ?P "js ''code''"]
      completeLoginFlow_state_check [of None ?s ?P "js ''code''"]
      completeLoginFlow_state_check [of "Some (js ''42'')" ?s ?P "js ''code''"]
    by simp
qed

text \<open>
  C5 as stated fails: with an empty CSRF cookie stored, the empty \<open>state\<close> is not rejected;
  the code is exchanged and the login completes.
\<close>

theorem completeLoginFlow_empty_state:
  "authState (new_OIDC (awaiting_jar (js ''''))) = Some (js '''')
   \<and> fst (completeLoginFlow (demo_platform demo_stream discovery_ok (Some (token_response (js ''h.a.s'') (js ''h.r.s''))))
        (Some (js '''')) (js ''code'') (new_OIDC (awaiting_jar (js '''')))) = Inr (js ''/'')"
  by (simp add: discovery_ok_def awaiting_jar_def run_defs)

section \<open>getAccessToken\<close>

lemma getRealmConfig_requests:
  "\<exists>d. requests (snd (getRealmConfig P s)) = requests s @ d \<and> filter is_refresh_grant d = []"
proof (cases "cachedConfig s")
  case (Some c)
  then show ?thesis by (simp add: getRealmConfig_def)
next
  case None
  then have "requests (snd (getRealmConfig P s))
               = requests s @ [Get (REALM P @ js ''/.well-known/openid-configuration'')]"
    by (simp add: getRealmConfig_def andThen_def lift_def await_fetch_def response_json_def
        split: option.splits sum.splits prod.splits)
  then show ?thesis by (simp add: is_refresh_grant_def)
qed

lemma createRefreshTokenRequest_requests:
  "requests (snd (createRefreshTokenRequest P t s)) = requests (snd (getRealmConfig P s))"
  unfolding createRefreshTokenRequest_def
  by (intro andThen_requests) (simp_all add: andThen_lift lift_def split: sum.splits)

lemma js_refresh_token_not_client_secret:
  "js ''grant_type'' \<noteq> js ''refresh_token''" "js ''grant_type'' \<noteq> js ''client_secret''"
  "js ''grant_type'' \<noteq> js ''client_id''"
  by (simp_all add: js_def)

lemma createRefreshTokenRequest_grant:
  "createRefreshTokenRequest P t s = (Inr req, s1) \<Longrightarrow> is_refresh_grant req"
  using js_refresh_token_not_client_secret
  by (auto simp: createRefreshTokenRequest_def andThen_def lift_def is_refresh_grant_def
      split: prod.splits sum.splits)

lemma requests_deleteTokens [simp]: "requests (deleteTokens s) = requests s"
  by (simp add: deleteTokens_def RefreshTokenCookie_delete_def AccessTokenCookie_delete_def
      Cookie_delete_def)

lemma rotate_requests:
  "requests (snd (andThen (AccessTokenCookie_set P a) (\<lambda>_. RefreshTokenCookie_set P r) s))
     = requests s"
  by (simp add: andThen_requests)

lemma refreshToken_read:
  assumes "fst (refreshToken P s) = Some t" "t \<noteq> []"
  shows "refreshToken P s = (Some t, s)"
proof -
  from assms have "truthy (fst (refreshToken P s))" by (simp add: truthy_def)
  then have "snd (refreshToken P s) = s" by (rule refreshToken_truthy_state)
  with assms(1) show ?thesis by (cases "refreshToken P s") simp
qed

lemma refresh_request_fails:
  assumes "fst (refreshToken P s) = Some t" "t \<noteq> []"
    and "createRefreshTokenRequest P t s = (Inl e, s1)"
  shows "refresh P s = (Inl e, s1)"
  using assms refreshToken_read [OF assms(1,2)]
  by (simp add: refresh_def truthy_def andThen_def)

lemma refresh_request_sent:
  assumes "fst (refreshToken P s) = Some t" "t \<noteq> []"
    and "createRefreshTokenRequest P t s = (Inr req, s1)"
  shows "requests (snd (refresh P s)) = requests s1 @ [req]"
proof -
  have "refresh P s =
         andThen (await_fetch P req) (\<lambda>response.
         andThen (lift (response_json response)) (\<lambda>data s2.
           (let s3 = s2\<lparr>console := console s2 @ [Logged_response response, Logged_data data]\<rparr> in
            if isExpiredSession response data then (Inr (), deleteTokens s3)
            else if \<not> ok response \<or> \<not> isTokens data then (Inl RefreshFailed, s3)
            else
              andThen (AccessTokenCookie_set P (string_member data (js ''access_token''))) (\<lambda>_.
                RefreshTokenCookie_set P (string_member data (js ''refresh_token''))) s3))) s1"
    using assms refreshToken_read [OF assms(1,2)]
    by (simp add: refresh_def truthy_def andThen_Inr)
  also have "requests (snd \<dots>) = requests (snd (await_fetch P req s1))"
    by (intro andThen_requests) (simp add: andThen_lift Let_def rotate_requests split: sum.splits)
  also have "\<dots> = requests s1 @ [req]" by (simp add: await_fetch_def)
  finally show ?thesis .
qed

lemma refresh_requests:
  assumes "fst (refreshToken P s) = Some t" "t \<noteq> []"
  shows "\<exists>new. requests (snd (refresh P s)) = requests s @ new
            \<and> length (filter is_refresh_grant new) \<le> 1"
proof -
  obtain d where d: "requests (snd (createRefreshTokenRequest P t s)) = requests s @ d"
    "filter is_refresh_grant d = []"
    using getRealmConfig_requests [of P s] createRefreshTokenRequest_requests [of P t s] by auto
  obtain r s1 where c: "createRefreshTokenRequest P t s = (r, s1)"
    by (cases "createRefreshTokenRequest P t s")
  show ?thesis
  proof (cases r)
    case (Inl e)
    with c assms have "refresh P s = (Inl e, s1)" by (simp add: refresh_request_fails)
    with c d show ?thesis by simp
  next
    case (Inr req)
    with c assms have "requests (snd (refresh P s)) = requests s1 @ [req]"
      by (simp add: refresh_request_sent)
    with c d have "requests (snd (refresh P s)) = requests s @ (d @ [req])" by simp
    moreover have "length (filter is_refresh_grant (d @ [req])) \<le> 1" using d(2) by simp
    ultimately show ?thesis by blast
  qed
qed

lemma getAccessToken_refreshes:
  "\<not> truthy (accessToken s) \<Longrightarrow>
     getAccessToken P s = andThen (refresh P) (\<lambda>_ s'. (Inr (accessToken s'), s')) s"
  by (simp add: getAccessToken_def Let_def)

lemma accessToken_cong: "cookies s' = cookies s \<Longrightarrow> accessToken s' = accessToken s"
  by (simp add: accessToken_def AccessTokenCookie_value_def Cookie_value_def)

text \<open>The two answers after which \<open>refresh\<close> returns normally, and the jar it leaves.\<close>

lemma refresh_expired:
  assumes "fst (refreshToken P s) = Some t" "t \<noteq> []"
    and "createRefreshTokenRequest P t s = (Inr req, s1)"
    and "fetch P (requests s1) req = Some resp" "body resp = Some data"
    and "isExpiredSession resp data"
  shows "fst (refresh P s) = Inr ()"
    and "cookies (snd (refresh P s))
           = (cookies s)(''access-token'' := None, ''refresh-token'' := None)"
proof -
  have c1: "cookies s1 = cookies s"
    using createRefreshTokenRequest_cookies [of P t s] assms(3) by simp
  show "fst (refresh P s) = Inr ()"
    "cookies (snd (refresh P s)) = (cookies s)(''access-token'' := None, ''refresh-token'' := None)"
    using assms(6) by (simp_all add: refresh_with_answer [OF assms(1-5)] Let_def cookies_deleteTokens c1)
qed

lemma refresh_rotated:
  assumes "fst (refreshToken P s) = Some t" "t \<noteq> []"
    and "createRefreshTokenRequest P t s = (Inr req, s1)"
    and "fetch P (requests s1) req = Some resp" "body resp = Some data"
    and "\<not> isExpiredSession resp data" "ok resp" "isTokens data"
    and "jwtDecode P (string_member data (js ''access_token'')) = Some ja" "getExpiry ja = Inr ea"
    and "jwtDecode P (string_member data (js ''refresh_token'')) = Some jr" "getExpiry jr = Inr er"
    and "CryptoSuite_encrypt (RefreshTokenCookie_crypto P) (randomBytes P (draws s))
           (string_member data (js ''refresh_token'')) = Inr c"
  shows "fst (refresh P s) = Inr ()"
    and "cookies (snd (refresh P s))
           = cookies (Cookie_set ''refresh-token'' c er
               (Cookie_set ''access-token'' (string_member data (js ''access_token'')) ea s))"
proof -
  have c1: "cookies s1 = cookies s"
    using createRefreshTokenRequest_cookies [of P t s] assms(3) by simp
  have d1: "draws s1 = draws s"
    using createRefreshTokenRequest_draws [of P t s] assms(3) by simp
  show "fst (refresh P s) = Inr ()"
    "cookies (snd (refresh P s))
       = cookies (Cookie_set ''refresh-token'' c er
           (Cookie_set ''access-token'' (string_member data (js ''access_token'')) ea s))"
    using assms(6-13)
    by (simp_all add: refresh_with_answer [OF assms(1-5)] Let_def c1 d1 andThen_def
        AccessTokenCookie_set_def RefreshTokenCookie_set_def Cookie_set_def)
qed

text \<open>
  C7, amended. \<open>getAccessToken\<close> returns the stored access token and leaves the state as it
  was, so sends nothing, when a non-empty access token is stored. When none is stored and no
  non-empty refresh token is read, it returns absent and sends nothing. When none is stored
  and a refresh token is read, it runs \<open>refresh\<close>: it sends at most one refresh-grant
  request, exactly the one built, as the last request, whenever that request can be built
  (the realm configuration is there and its token endpoint parses); it fails with the error of
  \<open>refresh\<close> if \<open>refresh\<close> fails, and otherwise returns the access token of the jar that
  \<open>refresh\<close> left: absent after the answer that the session has expired, and the access
  token of the answer after a rotation of the pair.
\<close>

theorem getAccessToken_requests:
  "(truthy (accessToken s) \<longrightarrow> getAccessToken P s = (Inr (accessToken s), s))
   \<and> (\<not> truthy (accessToken s) \<and> \<not> truthy (fst (refreshToken P s)) \<longrightarrow>
        (\<exists>v. fst (getAccessToken P s) = Inr v \<and> \<not> truthy v)
        \<and> requests (snd (getAccessToken P s)) = requests s)
   \<and> (\<not> truthy (accessToken s) \<and> fst (refreshToken P s) = Some t \<and> t \<noteq> [] \<longrightarrow>
        (\<exists>new. requests (snd (getAccessToken P s)) = requests s @ new
               \<and> length (filter is_refresh_grant new) \<le> 1)
        \<and> (createRefreshTokenRequest P t s = (Inr req, s1) \<longrightarrow>
              is_refresh_grant req \<and> requests (snd (getAccessToken P s)) = requests s1 @ [req])
        \<and> snd (getAccessToken P s) = snd (refresh P s)
        \<and> fst (getAccessToken P s)
            = (case fst (refresh P s) of
                 Inl e \<Rightarrow> Inl e
               | Inr _ \<Rightarrow> Inr (accessToken (snd (refresh P s))))
        \<and> (createRefreshTokenRequest P t s = (Inr req, s1) \<and>
           fetch P (requests s1) req = Some resp \<and> body resp = Some data \<longrightarrow>
             (isExpiredSession resp data \<longrightarrow> fst (getAccessToken P s) = Inr None)
           \<and> (\<not> isExpiredSession resp data \<and> ok resp \<and> isTokens data \<and>
                jwtDecode P (string_member data (js ''access_token'')) = Some ja \<and>
                getExpiry ja = Inr ea \<and>
                jwtDecode P (string_member data (js ''refresh_token'')) = Some jr \<and>
                getExpiry jr = Inr er \<and>
                CryptoSuite_encrypt (RefreshTokenCookie_crypto P) (randomBytes P (draws s))
                  (string_member data (js ''refresh_token'')) = Inr c \<longrightarrow>
                fst (getAccessToken P s) = Inr (Some (string_member data (js ''access_token''))))))"
proof (intro conjI impI)
  assume "truthy (accessToken s)"
  then show "getAccessToken P s = (Inr (accessToken s), s)"
    by (simp add: getAccessToken_def Let_def)
next
  assume a: "\<not> truthy (accessToken s) \<and> \<not> truthy (fst (refreshToken P s))"
  then have r: "refresh P s = (Inr (), snd (refreshToken P s))" by (simp add: refresh_without_token)
  have g: "getAccessToken P s
            = (Inr (accessToken (snd (refreshToken P s))), snd (refreshToken P s))"
    using a r by (simp add: getAccessToken_refreshes andThen_def)
  have "accessToken (snd (refreshToken P s)) = accessToken s"
    by (rule accessToken_cong) simp
  with a g show "\<exists>v. fst (getAccessToken P s) = Inr v \<and> \<not> truthy v" by simp
  from g show "requests (snd (getAccessToken P s)) = requests s" by simp
next
  assume a: "\<not> truthy (accessToken s) \<and> fst (refreshToken P s) = Some t \<and> t \<noteq> []"
  have rq: "requests (snd (getAccessToken P s)) = requests (snd (refresh P s))"
    using a by (simp add: getAccessToken_refreshes andThen_requests)
  from a have t1: "fst (refreshToken P s) = Some t" and t2: "t \<noteq> []" by simp_all
  show "\<exists>new. requests (snd (getAccessToken P s)) = requests s @ new
               \<and> length (filter is_refresh_grant new) \<le> 1"
    unfolding rq by (rule refresh_requests [OF t1 t2])
  show state: "snd (getAccessToken P s) = snd (refresh P s)"
    using a by (simp add: getAccessToken_refreshes andThen_def split: prod.splits sum.splits)
  show result: "fst (getAccessToken P s)
            = (case fst (refresh P s) of
                 Inl e \<Rightarrow> Inl e
               | Inr _ \<Rightarrow> Inr (accessToken (snd (refresh P s))))"
    using a by (simp add: getAccessToken_refreshes andThen_def split: prod.splits sum.splits)
  {
    assume c: "createRefreshTokenRequest P t s = (Inr req, s1)"
    then show "is_refresh_grant req" by (rule createRefreshTokenRequest_grant)
    show "requests (snd (getAccessToken P s)) = requests s1 @ [req]"
      unfolding rq by (rule refresh_request_sent [OF t1 t2 c])
  }
  {
    assume h: "createRefreshTokenRequest P t s = (Inr req, s1) \<and>
           fetch P (requests s1) req = Some resp \<and> body resp = Some data"
    then have c: "createRefreshTokenRequest P t s = (Inr req, s1)"
      and f: "fetch P (requests s1) req = Some resp" and b: "body resp = Some data"
      by simp_all
    {
      assume e: "isExpiredSession resp data"
      have "accessToken (snd (refresh P s)) = None"
        using refresh_expired(2) [OF t1 t2 c f b e]
        by (simp add: accessToken_def AccessTokenCookie_value_def Cookie_value_def)
      then show "fst (getAccessToken P s) = Inr None"
        using refresh_expired(1) [OF t1 t2 c f b e] by (simp add: result)
    }
    {
      assume r: "\<not> isExpiredSession resp data \<and> ok resp \<and> isTokens data \<and>
                jwtDecode P (string_member data (js ''access_token'')) = Some ja \<and>
                getExpiry ja = Inr ea \<and>
                jwtDecode P (string_member data (js ''refresh_token'')) = Some jr \<and>
                getExpiry jr = Inr er \<and>
                CryptoSuite_encrypt (RefreshTokenCookie_crypto P) (randomBytes P (draws s))
                  (string_member data (js ''refresh_token'')) = Inr c"
      then have r': "\<not> isExpiredSession resp data" "ok resp" "isTokens data"
        "jwtDecode P (string_member data (js ''access_token'')) = Some ja" "getExpiry ja = Inr ea"
        "jwtDecode P (string_member data (js ''refresh_token'')) = Some jr" "getExpiry jr = Inr er"
        "CryptoSuite_encrypt (RefreshTokenCookie_crypto P) (randomBytes P (draws s))
           (string_member data (js ''refresh_token'')) = Inr c"
        by simp_all
      have "accessToken (snd (refresh P s)) = Some (string_member data (js ''access_token''))"
        using refresh_rotated(2) [OF t1 t2 c f b r']
        by (simp add: accessToken_def AccessTokenCookie_value_def Cookie_value_def Cookie_set_def)
      then show "fst (getAccessToken P s) = Inr (Some (string_member data (js ''access_token'')))"
        using refresh_rotated(1) [OF t1 t2 c f b r'] by (simp add: result)
    }
  }
qed

theorem getAccessToken_requests_witness:
  "\<not> truthy (accessToken (new_OIDC logged_in_jar))
   \<and> fst (refreshToken (demo_platform demo_stream discovery_ok (Some (token_response (js ''h.a.s'') (js ''h.r.s''))))
         (new_OIDC logged_in_jar)) = Some (js ''h.r.s'')
   \<and> filter is_refresh_grant
        (requests (snd (getAccessToken
           (demo_platform demo_stream discovery_ok (Some (token_response (js ''h.a.s'') (js ''h.r.s''))))
           (new_OIDC logged_in_jar))))
      = [Post \<lparr>address = js ''https://idp/token'', searchParams = []\<rparr>
           [(js ''client_id'', js ''demo''), (js ''client_secret'', js ''secret''),
            (js ''grant_type'', js ''refresh_token''), (js ''refresh_token'', js ''h.r.s'')]]
   \<and> fst (getAccessToken
           (demo_platform demo_stream discovery_ok (Some (token_response (js ''h.a.s'') (js ''h.r.s''))))
           (new_OIDC logged_in_jar)) = Inr (Some (js ''h.a.s''))"
proof -
  let ?P = "demo_platform demo_stream discovery_ok (Some (token_response (js ''h.a.s'') (js ''h.r.s'')))"
  let ?s = "new_OIDC logged_in_jar"
  let ?req = "Post \<lparr>address = js ''https://idp/token'', searchParams = []\<rparr>
                [(js ''client_id'', js ''demo''), (js ''client_secret'', js ''secret''),
                 (js ''grant_type'', js ''refresh_token''), (js ''refresh_token'', js ''h.r.s'')]"
  let ?s1 = "?s\<lparr>cachedConfig := Some demo_config,
                requests := [Get (js ''https://idp/.well-known/openid-configuration'')]\<rparr>"
  let ?data = "JObject [(js ''access_token'', JString (js ''h.a.s'')),
                        (js ''refresh_token'', JString (js ''h.r.s''))]"
  let ?resp = "token_response (js ''h.a.s'') (js ''h.r.s'')"
  let ?ja = "JObject [(js ''exp'', JNumber 1700000300)]"
  let ?jr = "JObject [(js ''exp'', JNumber 1700001800)]"
  have at: "\<not> truthy (accessToken ?s)"
    by (simp add: logged_in_jar_def run_defs)
  have rt: "fst (refreshToken ?P ?s) = Some (js ''h.r.s'')"
    by (simp add: discovery_ok_def logged_in_jar_def run_defs)
  have ne: "js ''h.r.s'' \<noteq> []" by (simp add: js_def)
  have rq: "createRefreshTokenRequest ?P (js ''h.r.s'') ?s = (Inr ?req, ?s1)"
    by (simp add: discovery_ok_def logged_in_jar_def run_defs)
  have f: "fetch ?P (requests ?s1) ?req = Some ?resp" "body ?resp = Some ?data"
    by (simp_all add: demo_platform_def token_response_def)
  have r: "\<not> isExpiredSession ?resp ?data" "ok ?resp" "isTokens ?data"
    by (simp_all add: token_response_def isExpiredSession_def ok_def isTokens_def typeof_object_def
        has_key_def member_def typeof_string_def js_def)
  have m: "string_member ?data (js ''access_token'') = js ''h.a.s''"
    "string_member ?data (js ''refresh_token'') = js ''h.r.s''"
    by (simp_all add: string_member_def member_def js_def)
  have j: "jwtDecode ?P (string_member ?data (js ''access_token'')) = Some ?ja"
    "jwtDecode ?P (string_member ?data (js ''refresh_token'')) = Some ?jr"
    unfolding m
    by (simp_all add: jwtDecode_def js_split_def demo_platform_def demo_JSON_parse_def js_def)
  have e: "getExpiry ?ja = Inr (Some (Date_of_seconds (JNumber 1700000300)))"
    "getExpiry ?jr = Inr (Some (Date_of_seconds (JNumber 1700001800)))"
    by (simp_all add: getExpiry_def member_def json_truthy_def)
  have enc: "CryptoSuite_encrypt (RefreshTokenCookie_crypto ?P) (randomBytes ?P (draws ?s))
               (string_member ?data (js ''refresh_token''))
             = Inr (js ''AAAAAAAAAAAAAAAAAAAAAA.cy5yLmg'')"
    unfolding m by (simp add: run_defs)
  have "requests (snd (getAccessToken ?P ?s)) = requests ?s1 @ [?req]
        \<and> fst (getAccessToken ?P ?s) = Inr (Some (string_member ?data (js ''access_token'')))"
    using getAccessToken_requests [where P = ?P and s = ?s and t = "js ''h.r.s''" and req = ?req
        and ?s1.0 = ?s1 and resp = ?resp and data = ?data and ja = ?ja and jr = ?jr
        and ea = "Some (Date_of_seconds (JNumber 1700000300))"
        and er = "Some (Date_of_seconds (JNumber 1700001800))"
        and c = "js ''AAAAAAAAAAAAAAAAAAAAAA.cy5yLmg''"] at rt ne rq f r j e enc
    by blast
  then have "requests (snd (getAccessToken ?P ?s)) = requests ?s1 @ [?req]
        \<and> fst (getAccessToken ?P ?s) = Inr (Some (js ''h.a.s''))"
    by (simp only: m)
  then show ?thesis
    using at rt by (simp add: is_refresh_grant_def js_def)
qed

text \<open>
  C7 as stated fails: with a refresh token stored, no access token, and a discovery request
  that fails, \<open>getAccessToken\<close> sends no refresh-grant request at all and fails.
\<close>

theorem getAccessToken_without_configuration:
  "\<not> truthy (accessToken (new_OIDC logged_in_jar))
   \<and> truthy (fst (refreshToken (demo_platform demo_stream None (Some (token_response (js ''h.a.s'') (js ''h.r.s''))))
         (new_OIDC logged_in_jar)))
   \<and> fst (getAccessToken (demo_platform demo_stream None (Some (token_response (js ''h.a.s'') (js ''h.r.s''))))
         (new_OIDC logged_in_jar)) = Inl NetworkError
   \<and> filter is_refresh_grant
        (requests (snd (getAccessToken
           (demo_platform demo_stream None (Some (token_response (js ''h.a.s'') (js ''h.r.s''))))
           (new_OIDC logged_in_jar)))) = []"
  by (simp add: logged_in_jar_def run_defs)


section \<open>The token pair\<close>

text \<open>
  \<open>logout\<close>, \<open>startLoginFlow\<close>, \<open>refresh\<close> and \<open>getAccessToken\<close> keep the token cookies
  paired, whatever they return, and so does \<open>completeLoginFlow\<close> where it returns normally.
\<close>

lemma paired_cong: "cookies s' = cookies s \<Longrightarrow> paired s' = paired s"
  by (simp add: paired_def)

lemma paired_deleteTokens: "paired (deleteTokens s)"
  by (simp add: paired_def cookies_deleteTokens)

lemma paired_logout: "paired (snd (logout P s))"
proof -
  have "cookies (snd (logout P s)) = cookies (snd (getRealmConfig P (deleteTokens s)))"
    unfolding logout_def
    by (intro andThen_cookies) (simp_all add: andThen_lift lift_def split: sum.splits)
  then have "cookies (snd (logout P s)) = cookies (deleteTokens s)"
    by (simp add: getRealmConfig_cookies)
  then show ?thesis using paired_deleteTokens [of s] by (simp add: paired_def)
qed

lemma startLoginFlow_cookies:
  "cookies (snd (startLoginFlow P s))
     = cookies (AuthStateCookie_set (show_nat (random_state P (draws s))) s)"
proof -
  let ?s0 = "AuthStateCookie_set (show_nat (random_state P (draws s))) (s\<lparr>draws := draws s + 1\<rparr>)"
  have "cookies (snd (startLoginFlow P s)) = cookies (snd (getRealmConfig P ?s0))"
    unfolding startLoginFlow_def generateRandomState_def
    by (simp only: prod.case)
       (intro andThen_cookies, simp_all add: andThen_lift lift_def split: sum.splits)
  then show ?thesis
    by (simp add: getRealmConfig_cookies AuthStateCookie_set_def Cookie_set_def)
qed

lemma paired_startLoginFlow: "paired s \<Longrightarrow> paired (snd (startLoginFlow P s))"
  by (simp add: paired_def startLoginFlow_cookies AuthStateCookie_set_def Cookie_set_def)

lemma refreshToken_present:
  "fst (refreshToken P s) = Some t \<Longrightarrow> cookies s ''refresh-token'' \<noteq> None"
  by (auto simp: refreshToken_def RefreshTokenCookie_value_def Cookie_value_def
      split: option.splits)

text \<open>Writing the pair leaves a refresh-token cookie that was there.\<close>

lemma rotate_keeps_refresh:
  assumes "cookies s ''refresh-token'' \<noteq> None"
  shows "cookies (snd (andThen (AccessTokenCookie_set P a) (\<lambda>_. RefreshTokenCookie_set P r) s))
           ''refresh-token'' \<noteq> None"
  using assms
  by (auto simp: andThen_def AccessTokenCookie_set_def RefreshTokenCookie_set_def Cookie_set_def
      Let_def split: option.splits sum.splits)

lemma paired_refresh:
  assumes "paired s"
  shows "paired (snd (refresh P s))"
proof (cases "truthy (fst (refreshToken P s))")
  case False
  then have "refresh P s = (Inr (), snd (refreshToken P s))" by (rule refresh_without_token)
  with assms show ?thesis by (simp add: paired_def)
next
  case True
  then obtain t where t: "fst (refreshToken P s) = Some t" "t \<noteq> []"
    by (auto simp: truthy_def split: option.splits)
  then have present: "cookies s ''refresh-token'' \<noteq> None" by (simp add: refreshToken_present)
  obtain r s1 where c: "createRefreshTokenRequest P t s = (r, s1)"
    by (cases "createRefreshTokenRequest P t s")
  have c1: "cookies s1 = cookies s"
    using createRefreshTokenRequest_cookies [of P t s] c by simp
  show ?thesis
  proof (cases r)
    case (Inl e)
    with c t have "refresh P s = (Inl e, s1)" by (simp add: refresh_request_fails)
    with c1 assms show ?thesis by (simp add: paired_def)
  next
    case (Inr req)
    have run: "refresh P s =
         andThen (await_fetch P req) (\<lambda>response.
         andThen (lift (response_json response)) (\<lambda>data s2.
           (let s3 = s2\<lparr>console := console s2 @ [Logged_response response, Logged_data data]\<rparr> in
            if isExpiredSession response data then (Inr (), deleteTokens s3)
            else if \<not> ok response \<or> \<not> isTokens data then (Inl RefreshFailed, s3)
            else
              andThen (AccessTokenCookie_set P (string_member data (js ''access_token''))) (\<lambda>_.
                RefreshTokenCookie_set P (string_member data (js ''refresh_token''))) s3))) s1"
      using c Inr t refreshToken_read [OF t]
      by (simp add: refresh_def truthy_def andThen_Inr)
    let ?s2 = "s1\<lparr>requests := requests s1 @ [req]\<rparr>"
    show ?thesis
    proof (cases "fetch P (requests s1) req")
      case None
      then have "refresh P s = (Inl NetworkError, ?s2)"
        by (simp add: run andThen_def await_fetch_def)
      with c1 assms show ?thesis by (simp add: paired_def)
    next
      case (Some resp)
      note f = this
      show ?thesis
      proof (cases "body resp")
        case None
        with f have "refresh P s = (Inl BodyNotJson, ?s2)"
          by (simp add: run andThen_def await_fetch_def lift_def response_json_def)
        with c1 assms show ?thesis by (simp add: paired_def)
      next
        case (Some data)
        let ?s3 = "s1\<lparr>requests := requests s1 @ [req],
                  console := console s1 @ [Logged_response resp, Logged_data data]\<rparr>"
        have ans: "refresh P s =
           (if isExpiredSession resp data then (Inr (), deleteTokens ?s3)
            else if \<not> ok resp \<or> \<not> isTokens data then (Inl RefreshFailed, ?s3)
            else andThen (AccessTokenCookie_set P (string_member data (js ''access_token''))) (\<lambda>_.
                   RefreshTokenCookie_set P (string_member data (js ''refresh_token''))) ?s3)"
        proof -
          from c Inr have c': "createRefreshTokenRequest P t s = (Inr req, s1)" by simp
          show ?thesis
            using refresh_with_answer [OF t c' f Some] by (simp add: Let_def)
        qed
        have p3: "cookies ?s3 ''refresh-token'' \<noteq> None" using present c1 by simp
        consider (expired) "isExpiredSession resp data"
          | (failed) "\<not> isExpiredSession resp data" "\<not> ok resp \<or> \<not> isTokens data"
          | (rotate) "\<not> isExpiredSession resp data" "\<not> (\<not> ok resp \<or> \<not> isTokens data)"
          by blast
        then show ?thesis
        proof cases
          case expired
          then show ?thesis by (simp add: ans paired_deleteTokens)
        next
          case failed
          then have "refresh P s = (Inl RefreshFailed, ?s3)" by (simp add: ans)
          with c1 assms show ?thesis by (simp add: paired_def)
        next
          case rotate
          then have "refresh P s =
             andThen (AccessTokenCookie_set P (string_member data (js ''access_token''))) (\<lambda>_.
                   RefreshTokenCookie_set P (string_member data (js ''refresh_token''))) ?s3"
            by (simp add: ans)
          with rotate_keeps_refresh [OF p3] show ?thesis by (simp add: paired_def)
        qed
      qed
    qed
  qed
qed

lemma paired_getAccessToken:
  assumes "paired s"
  shows "paired (snd (getAccessToken P s))"
proof (cases "truthy (accessToken s)")
  case True
  with assms show ?thesis by (simp add: getAccessToken_def Let_def)
next
  case False
  then have "cookies (snd (getAccessToken P s)) = cookies (snd (refresh P s))"
    by (simp add: getAccessToken_refreshes andThen_cookies)
  with paired_refresh [OF assms, of P] show ?thesis by (simp add: paired_def)
qed

lemma store_tokens_refresh_present:
  assumes "fst (andThen (AccessTokenCookie_set P a) (\<lambda>_.
             andThen (RefreshTokenCookie_set P r) (\<lambda>_. lift (Inr x))) s) = Inr u"
  shows "cookies (snd (andThen (AccessTokenCookie_set P a) (\<lambda>_.
             andThen (RefreshTokenCookie_set P r) (\<lambda>_. lift (Inr x))) s)) ''refresh-token'' \<noteq> None"
  using assms
  by (auto simp: andThen_def lift_def AccessTokenCookie_set_def RefreshTokenCookie_set_def
      Cookie_set_def Let_def split: option.splits sum.splits)

lemma paired_completeLoginFlow:
  assumes "fst (completeLoginFlow P state code s) = Inr p"
  shows "paired (snd (completeLoginFlow P state code s))"
proof -
  from assms have n: "\<not> (state = None \<or> state \<noteq> authState s)"
    by (auto simp: completeLoginFlow_def split: if_splits)
  obtain r s1 where c: "createAuthorizationCodeRequest P code s = (r, s1)"
    by (cases "createAuthorizationCodeRequest P code s")
  from assms n c obtain req where r: "r = Inr req"
    by (cases r) (auto simp: completeLoginFlow_def andThen_def)
  from assms n c r obtain resp where f: "fetch P (requests s1) req = Some resp"
    by (cases "fetch P (requests s1) req")
       (auto simp: completeLoginFlow_def andThen_def await_fetch_def)
  from assms n c r f obtain data where b: "body resp = Some data"
    by (cases "body resp")
       (auto simp: completeLoginFlow_def andThen_def await_fetch_def lift_def response_json_def)
  let ?s2 = "s1\<lparr>requests := requests s1 @ [req]\<rparr>"
  let ?store = "andThen (AccessTokenCookie_set P (string_member data (js ''access_token''))) (\<lambda>_.
            andThen (RefreshTokenCookie_set P (string_member data (js ''refresh_token''))) (\<lambda>_.
              lift (Inr (js ''/'')))) ?s2"
  from assms n c r f b
  have run: "completeLoginFlow P state code s = ?store"
    by (auto simp: completeLoginFlow_def andThen_Inr await_fetch_def andThen_lift
        response_json_def split: if_splits)
  with assms have "fst ?store = Inr p" by simp
  then have "cookies (snd ?store) ''refresh-token'' \<noteq> None"
    by (rule store_tokens_refresh_present)
  with run show ?thesis by (simp add: paired_def)
qed

lemma createAuthorizationCodeRequest_cookies:
  "cookies (snd (createAuthorizationCodeRequest P code s)) = cookies s"
proof -
  have "cookies (snd (createAuthorizationCodeRequest P code s)) = cookies (snd (getRealmConfig P s))"
    unfolding createAuthorizationCodeRequest_def
    by (intro andThen_cookies) (simp_all add: andThen_lift lift_def split: sum.splits)
  then show ?thesis by (simp add: getRealmConfig_cookies)
qed

text \<open>
  C9. The token pair is not written as a pair: \<open>completeLoginFlow\<close> stores the access token
  before it decodes the refresh token. Where the state matches and the token endpoint
  returns an access token that is stored (it decodes, to a payload other than \<open>null\<close>) with
  a refresh token that the decoder rejects, the flow fails with the decoder's error and
  leaves a jar in which the access-token cookie has been written and the refresh-token
  cookie is as it was: if none was stored, the access token is stored without a refresh
  token.
\<close>

theorem completeLoginFlow_half_written:
  assumes "state \<noteq> None" "state = authState s"
    and "createAuthorizationCodeRequest P code s = (Inr req, s1)"
    and "fetch P (requests s1) req = Some resp" "body resp = Some data"
    and "ok resp" "isTokens data"
    and "jwtDecode P (string_member data (js ''access_token'')) = Some ja"
    and "getExpiry ja = Inr ea"
    and "jwtDecode P (string_member data (js ''refresh_token'')) = None"
  shows "fst (completeLoginFlow P state code s) = Inl InvalidTokenError
         \<and> cookies (snd (completeLoginFlow P state code s))
             = cookies (Cookie_set ''access-token'' (string_member data (js ''access_token''))
                          ea s)
         \<and> (cookies s ''refresh-token'' = None \<longrightarrow>
              \<not> paired (snd (completeLoginFlow P state code s)))"
proof -
  from assms(1,2) have n: "\<not> (state = None \<or> state \<noteq> authState s)" by simp
  have c1: "cookies s1 = cookies s"
    using createAuthorizationCodeRequest_cookies [of P code s] assms(3) by simp
  have "completeLoginFlow P state code s
          = (Inl InvalidTokenError,
             Cookie_set ''access-token'' (string_member data (js ''access_token'')) ea
               (s1\<lparr>requests := requests s1 @ [req]\<rparr>))"
    using assms(3-10)
    by (simp only: completeLoginFlow_def n if_False)
       (simp add: andThen_def await_fetch_def lift_def response_json_def
          AccessTokenCookie_set_def RefreshTokenCookie_set_def)
  then show ?thesis by (simp add: Cookie_set_def c1 paired_def)
qed

theorem completeLoginFlow_half_written_witness:
  "authState (new_OIDC (awaiting_jar (js ''42''))) = Some (js ''42'')
   \<and> Cookie_value ''access-token'' (new_OIDC (awaiting_jar (js ''42''))) = None
   \<and> Cookie_value ''refresh-token'' (new_OIDC (awaiting_jar (js ''42''))) = None
   \<and> fst (completeLoginFlow (demo_platform demo_stream discovery_ok (Some (token_response (js ''h.a.s'') (js ''opaque''))))
         (Some (js ''42'')) (js ''code'') (new_OIDC (awaiting_jar (js ''42'')))) = Inl InvalidTokenError
   \<and> Cookie_value ''access-token''
        (snd (completeLoginFlow (demo_platform demo_stream discovery_ok (Some (token_response (js ''h.a.s'') (js ''opaque''))))
         (Some (js ''42'')) (js ''code'') (new_OIDC (awaiting_jar (js ''42''))))) = Some (js ''h.a.s'')
   \<and> Cookie_value ''refresh-token''
        (snd (completeLoginFlow (demo_platform demo_stream discovery_ok (Some (token_response (js ''h.a.s'') (js ''opaque''))))
         (Some (js ''42'')) (js ''code'') (new_OIDC (awaiting_jar (js ''42''))))) = None
   \<and> \<not> paired
        (snd (completeLoginFlow (demo_platform demo_stream discovery_ok (Some (token_response (js ''h.a.s'') (js ''opaque''))))
         (Some (js ''42'')) (js ''code'') (new_OIDC (awaiting_jar (js ''42'')))))"
proof -
  let ?P = "demo_platform demo_stream discovery_ok (Some (token_response (js ''h.a.s'') (js ''opaque'')))"
  let ?s = "new_OIDC (awaiting_jar (js ''42''))"
  let ?req = "Post \<lparr>address = js ''https://idp/token'', searchParams = []\<rparr>
                [(js ''client_id'', js ''demo''), (js ''client_secret'', js ''secret''),
                 (js ''grant_type'', js ''authorization_code''), (js ''code'', js ''code''),
                 (js ''redirect_uri'', js ''https://app/login'')]"
  let ?s1 = "?s\<lparr>cachedConfig := Some demo_config,
                requests := [Get (js ''https://idp/.well-known/openid-configuration'')]\<rparr>"
  let ?data = "JObject [(js ''access_token'', JString (js ''h.a.s'')),
                        (js ''refresh_token'', JString (js ''opaque''))]"
  let ?resp = "token_response (js ''h.a.s'') (js ''opaque'')"
  let ?ja = "JObject [(js ''exp'', JNumber 1700000300)]"
  have a: "authState ?s = Some (js ''42'')" "Cookie_value ''access-token'' ?s = None"
    "Cookie_value ''refresh-token'' ?s = None"
    by (simp_all add: authState_def AuthStateCookie_value_def Cookie_value_def new_OIDC_def
        awaiting_jar_def demo_cookie_def)
  have rq: "createAuthorizationCodeRequest ?P (js ''code'') ?s = (Inr ?req, ?s1)"
    by (simp add: discovery_ok_def awaiting_jar_def run_defs)
  have f: "fetch ?P (requests ?s1) ?req = Some ?resp" "body ?resp = Some ?data"
    by (simp_all add: demo_platform_def token_response_def)
  have r: "ok ?resp" "isTokens ?data"
    by (simp_all add: token_response_def ok_def isTokens_def typeof_object_def
        has_key_def member_def typeof_string_def js_def)
  have m: "string_member ?data (js ''access_token'') = js ''h.a.s''"
    "string_member ?data (js ''refresh_token'') = js ''opaque''"
    by (simp_all add: string_member_def member_def js_def)
  have j: "jwtDecode ?P (string_member ?data (js ''access_token'')) = Some ?ja"
    "jwtDecode ?P (string_member ?data (js ''refresh_token'')) = None"
    unfolding m
    by (simp_all add: jwtDecode_def js_split_def demo_platform_def demo_JSON_parse_def js_def)
  have e: "getExpiry ?ja = Inr (Some (Date_of_seconds (JNumber 1700000300)))"
    by (simp add: getExpiry_def member_def json_truthy_def)
  have "fst (completeLoginFlow ?P (Some (js ''42'')) (js ''code'') ?s) = Inl InvalidTokenError
        \<and> cookies (snd (completeLoginFlow ?P (Some (js ''42'')) (js ''code'') ?s))
            = cookies (Cookie_set ''access-token'' (string_member ?data (js ''access_token''))
                         (Some (Date_of_seconds (JNumber 1700000300))) ?s)
        \<and> (cookies ?s ''refresh-token'' = None \<longrightarrow>
              \<not> paired (snd (completeLoginFlow ?P (Some (js ''42'')) (js ''code'') ?s)))"
    using a(1) by (intro completeLoginFlow_half_written [OF _ _ rq f r j(1) e j(2)]) simp_all
  then show ?thesis
    using a
    by (simp add: Cookie_value_def Cookie_set_def new_OIDC_def awaiting_jar_def m)
qed

section \<open>Realm configuration\<close>

lemma isRealmConfig_iff:
  "isRealmConfig v \<longleftrightarrow>
     (\<exists>kvs a t e. v = JObject kvs
        \<and> map_of kvs (js ''authorization_endpoint'') = Some (JString a)
        \<and> map_of kvs (js ''token_endpoint'') = Some (JString t)
        \<and> map_of kvs (js ''end_session_endpoint'') = Some (JString e))"
  by (cases v)
     (auto simp: isRealmConfig_def typeof_object_def has_key_def member_def typeof_string_def
        split: option.splits json.splits)

lemma getRealmConfig_fetched:
  assumes "cachedConfig s = None"
    and "fetch P (requests s) (Get (REALM P @ js ''/.well-known/openid-configuration'')) = Some resp"
    and "body resp = Some data"
  shows "getRealmConfig P s =
     (let s' = s\<lparr>requests := requests s @ [Get (REALM P @ js ''/.well-known/openid-configuration'')]\<rparr>
      in if isRealmConfig data then (Inr data, s'\<lparr>cachedConfig := Some data\<rparr>)
         else (Inl ConfigUnavailable, s'))"
  using assms
  by (simp add: getRealmConfig_def andThen_def await_fetch_def lift_def response_json_def Let_def)

lemma getRealmConfig_memoizes:
  "fst (getRealmConfig P s) = Inr c \<Longrightarrow> cachedConfig (snd (getRealmConfig P s)) = Some c"
  by (auto simp: getRealmConfig_def andThen_def await_fetch_def lift_def response_json_def
      split: option.splits sum.splits if_splits)

text \<open>
  C8. \<open>isRealmConfig\<close> does not look at \<open>issuer\<close>, a field of the type \<open>RealmConfig\<close> that
  it guards: whatever a discovery document says about \<open>issuer\<close>, if its three endpoints are
  strings it passes the guard, and \<open>#getRealmConfig\<close> returns and memoizes it instead of
  failing.
\<close>

theorem isRealmConfig_without_issuer:
  assumes "map_of kvs (js ''authorization_endpoint'') = Some (JString a)"
    and "map_of kvs (js ''token_endpoint'') = Some (JString t)"
    and "map_of kvs (js ''end_session_endpoint'') = Some (JString e)"
    and "cachedConfig s = None"
    and "fetch P (requests s) (Get (REALM P @ js ''/.well-known/openid-configuration'')) = Some resp"
    and "body resp = Some (JObject kvs)"
  shows "isRealmConfig (JObject kvs)
         \<and> fst (getRealmConfig P s) = Inr (JObject kvs)
         \<and> cachedConfig (snd (getRealmConfig P s)) = Some (JObject kvs)"
proof -
  have g: "isRealmConfig (JObject kvs)"
    using assms(1-3) by (auto simp: isRealmConfig_iff)
  then show ?thesis
    using getRealmConfig_fetched [OF assms(4-6)] by (simp add: Let_def)
qed

theorem isRealmConfig_without_issuer_witness:
  "\<not> has_key (js ''issuer'') config_without_issuer
   \<and> isRealmConfig config_without_issuer
   \<and> fst (getRealmConfig
        (demo_platform demo_stream (Some \<lparr>status = 200, body = Some config_without_issuer\<rparr>) None)
        (new_OIDC Map.empty)) = Inr config_without_issuer
   \<and> cachedConfig (snd (getRealmConfig
        (demo_platform demo_stream (Some \<lparr>status = 200, body = Some config_without_issuer\<rparr>) None)
        (new_OIDC Map.empty))) = Some config_without_issuer"
proof -
  let ?kvs = "[(js ''authorization_endpoint'', JString (js ''https://idp/auth'')),
      (js ''token_endpoint'', JString (js ''https://idp/token'')),
      (js ''end_session_endpoint'', JString (js ''https://idp/logout''))]"
  let ?resp = "\<lparr>status = 200, body = Some config_without_issuer\<rparr>"
  let ?P = "demo_platform demo_stream (Some ?resp) None"
  have k: "config_without_issuer = JObject ?kvs" by (simp add: config_without_issuer_def)
  have i: "\<not> has_key (js ''issuer'') config_without_issuer"
    by (simp add: k has_key_def member_def js_def)
  have l: "map_of ?kvs (js ''authorization_endpoint'') = Some (JString (js ''https://idp/auth''))"
    "map_of ?kvs (js ''token_endpoint'') = Some (JString (js ''https://idp/token''))"
    "map_of ?kvs (js ''end_session_endpoint'') = Some (JString (js ''https://idp/logout''))"
    by (simp_all add: js_def)
  have f: "fetch ?P (requests (new_OIDC Map.empty))
             (Get (REALM ?P @ js ''/.well-known/openid-configuration'')) = Some ?resp"
    "body ?resp = Some (JObject ?kvs)" "cachedConfig (new_OIDC Map.empty) = None"
    by (simp_all add: demo_platform_def new_OIDC_def k)
  show ?thesis
    using isRealmConfig_without_issuer [where kvs = ?kvs and P = ?P
        and s = "new_OIDC Map.empty" and resp = ?resp, OF l f(3) f(1) f(2)] i
    by (simp only: k) simp
qed

section \<open>isLoggedIn\<close>

lemma RefreshTokenCookie_value_cases:
  "RefreshTokenCookie_value P s =
     (case Cookie_value ''refresh-token'' s of
        None \<Rightarrow> (None, s)
      | Some v \<Rightarrow>
          if v = [] then (Some v, s)
          else (case CryptoSuite_decrypt (RefreshTokenCookie_crypto P) v of
                  Inl err \<Rightarrow> (None, s\<lparr>console := console s @ [Invalid_cookie err]\<rparr>)
                | Inr t \<Rightarrow> (Some t, s)))"
  by (simp add: RefreshTokenCookie_value_def)

text \<open>
  C4, amended. \<open>isLoggedIn()\<close> returns true if and only if the refresh-token cookie is
  present with a non-empty value that decrypts successfully to a non-empty string. It never
  raises; for a cookie whose decryption throws it returns false, and the error is logged.
\<close>

theorem isLoggedIn_iff:
  "(fst (isLoggedIn P s) \<longleftrightarrow>
      (\<exists>v t. Cookie_value ''refresh-token'' s = Some v \<and> v \<noteq> []
         \<and> CryptoSuite_decrypt (RefreshTokenCookie_crypto P) v = Inr t \<and> t \<noteq> []))
   \<and> (Cookie_value ''refresh-token'' s = Some v \<and> v \<noteq> []
        \<and> CryptoSuite_decrypt (RefreshTokenCookie_crypto P) v = Inl e \<longrightarrow>
        isLoggedIn P s = (False, s\<lparr>console := console s @ [Invalid_cookie e]\<rparr>))"
  by (auto simp: isLoggedIn_def refreshToken_def RefreshTokenCookie_value_def truthy_def
      split: option.splits sum.splits if_splits)

theorem isLoggedIn_iff_witness:
  "Cookie_value ''refresh-token''
      (new_OIDC [''refresh-token'' \<mapsto> demo_cookie (js ''AAAAAAAAAAAAAAAAAAAAAA.cy5yLmg.AAAA'')])
     = Some (js ''AAAAAAAAAAAAAAAAAAAAAA.cy5yLmg.AAAA'')
   \<and> CryptoSuite_decrypt (RefreshTokenCookie_crypto (demo_platform demo_aead discovery_ok None))
        (js ''AAAAAAAAAAAAAAAAAAAAAA.cy5yLmg.AAAA'') = Inl CipherFailure
   \<and> isLoggedIn (demo_platform demo_aead discovery_ok None)
        (new_OIDC [''refresh-token'' \<mapsto> demo_cookie (js ''AAAAAAAAAAAAAAAAAAAAAA.cy5yLmg.AAAA'')])
      = (False, (new_OIDC [''refresh-token'' \<mapsto> demo_cookie (js ''AAAAAAAAAAAAAAAAAAAAAA.cy5yLmg.AAAA'')])
                  \<lparr>console := [Invalid_cookie CipherFailure]\<rparr>)"
proof -
  let ?P = "demo_platform demo_aead discovery_ok None"
  let ?v = "js ''AAAAAAAAAAAAAAAAAAAAAA.cy5yLmg.AAAA''"
  let ?s = "new_OIDC [''refresh-token'' \<mapsto> demo_cookie ?v]"
  have c: "Cookie_value ''refresh-token'' ?s = Some ?v"
    by (simp add: Cookie_value_def new_OIDC_def demo_cookie_def)
  have ne: "?v \<noteq> []" by (simp add: js_def)
  have d: "CryptoSuite_decrypt (RefreshTokenCookie_crypto ?P) ?v = Inl CipherFailure"
    by (simp add: RefreshTokenCookie_crypto_def demo_platform_def crypto_run_defs)
  have "isLoggedIn ?P ?s = (False, ?s\<lparr>console := console ?s @ [Invalid_cookie CipherFailure]\<rparr>)"
    using isLoggedIn_iff [of ?P ?s ?v CipherFailure] c ne d by blast
  then show ?thesis using c d by (simp add: new_OIDC_def)
qed

text \<open>
  C4 as stated fails: under an unauthenticated stream mode, a cookie that holds an
  initialisation vector and an empty ciphertext is present and decrypts successfully (to
  the empty string), and \<open>isLoggedIn()\<close> returns false.
\<close>

theorem isLoggedIn_empty_plaintext:
  "Cookie_value ''refresh-token''
      (new_OIDC [''refresh-token'' \<mapsto> demo_cookie (js ''AAAAAAAAAAAAAAAAAAAAAA.'')])
     = Some (js ''AAAAAAAAAAAAAAAAAAAAAA.'')
   \<and> CryptoSuite_decrypt (RefreshTokenCookie_crypto (demo_platform demo_stream discovery_ok None))
        (js ''AAAAAAAAAAAAAAAAAAAAAA.'') = Inr (js '''')
   \<and> isLoggedIn (demo_platform demo_stream discovery_ok None)
        (new_OIDC [''refresh-token'' \<mapsto> demo_cookie (js ''AAAAAAAAAAAAAAAAAAAAAA.'')])
      = (False, new_OIDC [''refresh-token'' \<mapsto> demo_cookie (js ''AAAAAAAAAAAAAAAAAAAAAA.'')])"
  by (simp add: run_defs)


section \<open>Tokens that are not decodable\<close>

lemma jwtDecode_None_iff:
  "jwtDecode P v = None \<longleftrightarrow>
     (length (js_split (js ''.'') v) < 2
      \<or> base64UrlDecode P (js_split (js ''.'') v ! 1) = None
      \<or> (\<exists>decoded. base64UrlDecode P (js_split (js ''.'') v ! 1) = Some decoded
            \<and> JSON_parse P decoded = None))"
  by (auto simp: jwtDecode_def Let_def split: option.splits)

lemma AccessTokenCookie_set_Inr:
  "fst (AccessTokenCookie_set P v s) = Inr u \<Longrightarrow>
     jwtDecode P v \<noteq> None \<and> jwtDecode P v \<noteq> Some JNull"
  by (auto simp: AccessTokenCookie_set_def getExpiry_null split: option.splits sum.splits)

lemma RefreshTokenCookie_set_Inr:
  "fst (RefreshTokenCookie_set P v s) = Inr u \<Longrightarrow>
     jwtDecode P v \<noteq> None \<and> jwtDecode P v \<noteq> Some JNull"
  by (auto simp: RefreshTokenCookie_set_def getExpiry_null Let_def split: option.splits sum.splits)

lemma RefreshTokenCookie_set_null:
  assumes "jwtDecode P v = Some JNull"
  shows "\<exists>e. fst (RefreshTokenCookie_set P v s) = Inl e"
    and "cookies (snd (RefreshTokenCookie_set P v s)) = cookies s"
  using assms
  by (auto simp: RefreshTokenCookie_set_def getExpiry_null Let_def split: sum.splits)

lemma store_tokens_Inr:
  assumes "fst (andThen (AccessTokenCookie_set P a) (\<lambda>_. f) s) = Inr u"
    and "\<And>s' u'. fst (f s') = Inr u' \<Longrightarrow> jwtDecode P r \<noteq> None \<and> jwtDecode P r \<noteq> Some JNull"
  shows "(jwtDecode P a \<noteq> None \<and> jwtDecode P a \<noteq> Some JNull)
         \<and> (jwtDecode P r \<noteq> None \<and> jwtDecode P r \<noteq> Some JNull)"
proof -
  obtain x s' where x: "AccessTokenCookie_set P a s = (x, s')"
    by (cases "AccessTokenCookie_set P a s")
  with assms(1) obtain y where y: "x = Inr y" by (cases x) (auto simp: andThen_def)
  with x have "jwtDecode P a \<noteq> None \<and> jwtDecode P a \<noteq> Some JNull"
    using AccessTokenCookie_set_Inr [of P a s y] by simp
  moreover from assms(1) x y have "fst (f s') = Inr u" by (simp add: andThen_def)
  then have "jwtDecode P r \<noteq> None \<and> jwtDecode P r \<noteq> Some JNull" by (rule assms(2))
  ultimately show ?thesis by simp
qed

lemma store_then_path_Inr:
  "fst (andThen (RefreshTokenCookie_set P r) (\<lambda>_. lift (Inr x)) s) = Inr u
     \<Longrightarrow> jwtDecode P r \<noteq> None \<and> jwtDecode P r \<noteq> Some JNull"
proof -
  assume a: "fst (andThen (RefreshTokenCookie_set P r) (\<lambda>_. lift (Inr x)) s) = Inr u"
  obtain y s' where y: "RefreshTokenCookie_set P r s = (y, s')"
    by (cases "RefreshTokenCookie_set P r s")
  with a obtain z where "y = Inr z" by (cases y) (auto simp: andThen_def)
  with y have "fst (RefreshTokenCookie_set P r s) = Inr z" by simp
  then show ?thesis by (rule RefreshTokenCookie_set_Inr)
qed

lemma completeLoginFlow_Inr:
  assumes "fst (completeLoginFlow P state code s) = Inr p"
  shows "\<exists>req s1 resp data.
           createAuthorizationCodeRequest P code s = (Inr req, s1)
           \<and> fetch P (requests s1) req = Some resp \<and> body resp = Some data
           \<and> jwtDecode P (string_member data (js ''access_token'')) \<noteq> None
           \<and> jwtDecode P (string_member data (js ''access_token'')) \<noteq> Some JNull
           \<and> jwtDecode P (string_member data (js ''refresh_token'')) \<noteq> None
           \<and> jwtDecode P (string_member data (js ''refresh_token'')) \<noteq> Some JNull"
proof -
  from assms have n: "\<not> (state = None \<or> state \<noteq> authState s)"
    by (auto simp: completeLoginFlow_def split: if_splits)
  obtain r s1 where c: "createAuthorizationCodeRequest P code s = (r, s1)"
    by (cases "createAuthorizationCodeRequest P code s")
  from assms n c obtain req where r: "r = Inr req"
    by (cases r) (auto simp: completeLoginFlow_def andThen_def)
  from assms n c r obtain resp where f: "fetch P (requests s1) req = Some resp"
    by (cases "fetch P (requests s1) req")
       (auto simp: completeLoginFlow_def andThen_def await_fetch_def)
  from assms n c r f obtain data where b: "body resp = Some data"
    by (cases "body resp")
       (auto simp: completeLoginFlow_def andThen_def await_fetch_def lift_def response_json_def)
  from assms n c r f b
  have "(jwtDecode P (string_member data (js ''access_token'')) \<noteq> None
         \<and> jwtDecode P (string_member data (js ''access_token'')) \<noteq> Some JNull)
        \<and> (jwtDecode P (string_member data (js ''refresh_token'')) \<noteq> None
         \<and> jwtDecode P (string_member data (js ''refresh_token'')) \<noteq> Some JNull)"
  proof -
    let ?s2 = "s1\<lparr>requests := requests s1 @ [req]\<rparr>"
    from assms n c r f b
    have t: "\<not> (\<not> ok resp \<or> \<not> isTokens data)"
      and "fst (andThen (AccessTokenCookie_set P (string_member data (js ''access_token''))) (\<lambda>_.
            andThen (RefreshTokenCookie_set P (string_member data (js ''refresh_token''))) (\<lambda>_.
              lift (Inr (js ''/'')))) ?s2) = Inr p"
      by (auto simp: completeLoginFlow_def andThen_Inr await_fetch_def andThen_lift
          response_json_def split: if_splits)
    then show ?thesis
      by (intro store_tokens_Inr [where u = p and s = ?s2]) (auto dest: store_then_path_Inr)
  qed
  with c r f b show ?thesis by blast
qed

lemma refresh_Inr:
  assumes "fst (refreshToken P s) = Some t" "t \<noteq> []"
    and "createRefreshTokenRequest P t s = (Inr req, s1)"
    and "fetch P (requests s1) req = Some resp" "body resp = Some data"
    and "\<not> isExpiredSession resp data"
    and "fst (refresh P s) = Inr u"
  shows "(jwtDecode P (string_member data (js ''access_token'')) \<noteq> None
         \<and> jwtDecode P (string_member data (js ''access_token'')) \<noteq> Some JNull)
        \<and> (jwtDecode P (string_member data (js ''refresh_token'')) \<noteq> None
         \<and> jwtDecode P (string_member data (js ''refresh_token'')) \<noteq> Some JNull)"
proof -
  let ?s3 = "s1\<lparr>requests := requests s1 @ [req],
                  console := console s1 @ [Logged_response resp, Logged_data data]\<rparr>"
  from assms(6,7)
  have "fst (andThen (AccessTokenCookie_set P (string_member data (js ''access_token''))) (\<lambda>_.
             RefreshTokenCookie_set P (string_member data (js ''refresh_token''))) ?s3) = Inr u"
    unfolding refresh_with_answer [OF assms(1-5)]
    by (auto simp: Let_def split: if_splits)
  then show ?thesis
    by (intro store_tokens_Inr [where u = u and s = ?s3])
       (auto dest: RefreshTokenCookie_set_Inr)
qed

lemma getExpirations_access:
  assumes "accessToken s = Some a" "a \<noteq> []" "jwtDecode P a = None"
  shows "fst (getExpirations P s) = Inl InvalidTokenError"
  using assms by (simp add: getExpirations_def andThen_lift decoded_expiry_def truthy_def)

lemma getExpirations_refresh:
  assumes "fst (refreshToken P s) = Some t" "t \<noteq> []" "jwtDecode P t = None"
  shows "fst (getExpirations P s) = Inl InvalidTokenError"
proof (cases "decoded_expiry P (accessToken s)")
  case (Inl e)
  then have "e = InvalidTokenError"
    by (auto simp: decoded_expiry_def split: if_splits option.splits)
  with Inl show ?thesis by (simp add: getExpirations_def andThen_lift)
next
  case (Inr x)
  have "decoded_expiry P (Some t) = Inl InvalidTokenError"
    using assms by (simp add: decoded_expiry_def truthy_def)
  with Inr refreshToken_read [OF assms(1,2)] show ?thesis
    by (simp add: getExpirations_def andThen_lift)
qed

text \<open>
  C10, amended. A token is not decodable, that is \<open>jwtDecode\<close> throws, exactly when it has
  fewer than two parts between dots, or its second part is not base64url text, or the text
  decoded is not JSON. For a token that is not decodable, \<open>AccessTokenCookie.set\<close> and
  \<open>RefreshTokenCookie.set\<close> raise the decoder's error and store nothing; for a token whose
  payload is \<open>null\<close> they raise as well and store nothing. So \<open>completeLoginFlow\<close> returns
  normally only when both tokens of the answer it received are decodable, and so does
  \<open>refresh\<close> where it gets an answer other than the session-expired one. \<open>getExpirations\<close>
  raises the decoder's error when the access token it reads, or the refresh token it reads,
  is a non-empty string that is not decodable.
\<close>

theorem undecodable_token_raises:
  "(jwtDecode P v = None \<longleftrightarrow>
      (length (js_split (js ''.'') v) < 2
       \<or> base64UrlDecode P (js_split (js ''.'') v ! 1) = None
       \<or> (\<exists>decoded. base64UrlDecode P (js_split (js ''.'') v ! 1) = Some decoded
             \<and> JSON_parse P decoded = None)))
   \<and> (jwtDecode P v = None \<longrightarrow>
        AccessTokenCookie_set P v s = (Inl InvalidTokenError, s)
        \<and> RefreshTokenCookie_set P v s = (Inl InvalidTokenError, s))
   \<and> (jwtDecode P v = Some JNull \<longrightarrow>
        AccessTokenCookie_set P v s = (Inl TypeError, s)
        \<and> (\<exists>e. fst (RefreshTokenCookie_set P v s) = Inl e)
        \<and> cookies (snd (RefreshTokenCookie_set P v s)) = cookies s)
   \<and> (fst (completeLoginFlow P state code s) = Inr p \<longrightarrow>
        (\<exists>req s1 resp data.
           createAuthorizationCodeRequest P code s = (Inr req, s1)
           \<and> fetch P (requests s1) req = Some resp \<and> body resp = Some data
           \<and> jwtDecode P (string_member data (js ''access_token'')) \<noteq> None
           \<and> jwtDecode P (string_member data (js ''access_token'')) \<noteq> Some JNull
           \<and> jwtDecode P (string_member data (js ''refresh_token'')) \<noteq> None
           \<and> jwtDecode P (string_member data (js ''refresh_token'')) \<noteq> Some JNull))
   \<and> (fst (refreshToken P s) = Some t \<and> t \<noteq> [] \<and>
      createRefreshTokenRequest P t s = (Inr req, s1) \<and>
      fetch P (requests s1) req = Some resp \<and> body resp = Some data \<and>
      \<not> isExpiredSession resp data \<and> fst (refresh P s) = Inr () \<longrightarrow>
        (jwtDecode P (string_member data (js ''access_token'')) \<noteq> None
         \<and> jwtDecode P (string_member data (js ''access_token'')) \<noteq> Some JNull)
        \<and> (jwtDecode P (string_member data (js ''refresh_token'')) \<noteq> None
         \<and> jwtDecode P (string_member data (js ''refresh_token'')) \<noteq> Some JNull))
   \<and> (accessToken s = Some a \<and> a \<noteq> [] \<and> jwtDecode P a = None \<longrightarrow>
        fst (getExpirations P s) = Inl InvalidTokenError)
   \<and> (fst (refreshToken P s) = Some t \<and> t \<noteq> [] \<and> jwtDecode P t = None \<longrightarrow>
        fst (getExpirations P s) = Inl InvalidTokenError)"
  using completeLoginFlow_Inr [of P state code s p]
    refresh_Inr [of P s t req s1 resp data "()"]
    getExpirations_access [of s a P] getExpirations_refresh [of P s t]
    RefreshTokenCookie_set_null [of P v s] jwtDecode_None_iff [of P v]
  by (simp add: AccessTokenCookie_set_None RefreshTokenCookie_set_None AccessTokenCookie_set_null)

theorem undecodable_token_raises_witness:
  "js_split (js ''.'') (js ''opaque'') = [js ''opaque'']
   \<and> jwtDecode (demo_platform demo_stream discovery_ok None) (js ''opaque'') = None
   \<and> AccessTokenCookie_set (demo_platform demo_stream discovery_ok None) (js ''opaque'')
        (new_OIDC Map.empty) = (Inl InvalidTokenError, new_OIDC Map.empty)
   \<and> RefreshTokenCookie_set (demo_platform demo_stream discovery_ok None) (js ''opaque'')
        (new_OIDC Map.empty) = (Inl InvalidTokenError, new_OIDC Map.empty)
   \<and> jwtDecode (demo_platform demo_stream discovery_ok None) (js ''h.n.s'') = Some JNull
   \<and> AccessTokenCookie_set (demo_platform demo_stream discovery_ok None) (js ''h.n.s'')
        (new_OIDC Map.empty) = (Inl TypeError, new_OIDC Map.empty)
   \<and> accessToken (new_OIDC [''access-token'' \<mapsto> demo_cookie (js ''opaque'')]) = Some (js ''opaque'')
   \<and> fst (getExpirations (demo_platform demo_stream discovery_ok None)
        (new_OIDC [''access-token'' \<mapsto> demo_cookie (js ''opaque'')])) = Inl InvalidTokenError"
proof -
  let ?P = "demo_platform demo_stream discovery_ok None"
  have sp: "js_split (js ''.'') (js ''opaque'') = [js ''opaque'']"
    by (simp add: js_split_def js_def)
  have j: "jwtDecode ?P (js ''opaque'') = None"
    using undecodable_token_raises [where P = ?P and v = "js ''opaque''"] sp by simp
  have n: "jwtDecode ?P (js ''h.n.s'') = Some JNull"
    by (simp add: jwtDecode_def js_split_def demo_platform_def demo_JSON_parse_def js_def)
  have ne: "js ''opaque'' \<noteq> []" by (simp add: js_def)
  have a: "accessToken (new_OIDC [''access-token'' \<mapsto> demo_cookie (js ''opaque'')])
             = Some (js ''opaque'')"
    by (simp add: accessToken_def AccessTokenCookie_value_def Cookie_value_def new_OIDC_def
        demo_cookie_def)
  have "AccessTokenCookie_set ?P (js ''opaque'') (new_OIDC Map.empty)
          = (Inl InvalidTokenError, new_OIDC Map.empty)
        \<and> RefreshTokenCookie_set ?P (js ''opaque'') (new_OIDC Map.empty)
          = (Inl InvalidTokenError, new_OIDC Map.empty)"
    using undecodable_token_raises [where P = ?P and v = "js ''opaque''"
        and s = "new_OIDC Map.empty"] j
    by blast
  moreover have "AccessTokenCookie_set ?P (js ''h.n.s'') (new_OIDC Map.empty)
          = (Inl TypeError, new_OIDC Map.empty)"
    using undecodable_token_raises [where P = ?P and v = "js ''h.n.s''"
        and s = "new_OIDC Map.empty"] n
    by blast
  moreover have "fst (getExpirations ?P (new_OIDC [''access-token'' \<mapsto> demo_cookie (js ''opaque'')]))
          = Inl InvalidTokenError"
    using undecodable_token_raises [where P = ?P and a = "js ''opaque''"
        and s = "new_OIDC [''access-token'' \<mapsto> demo_cookie (js ''opaque'')]"] j a ne
    by blast
  ultimately show ?thesis using sp j n a by blast
qed

text \<open>
  C10 as stated fails for \<open>getExpirations\<close>: an access-token cookie that holds the empty
  string holds a token that is not decodable, and \<open>getExpirations\<close> does not raise; it
  does not decode the token and reports no expiry.
\<close>

theorem getExpirations_empty_token:
  "accessToken (new_OIDC [''access-token'' \<mapsto> demo_cookie (js '''')]) = Some (js '''')
   \<and> jwtDecode (demo_platform demo_stream discovery_ok None) (js '''') = None
   \<and> getExpirations (demo_platform demo_stream discovery_ok None)
        (new_OIDC [''access-token'' \<mapsto> demo_cookie (js '''')])
      = (Inr (None, None), new_OIDC [''access-token'' \<mapsto> demo_cookie (js '''')])"
  by (simp add: run_defs)

end
